theory Spec2Isabelle
  imports Main "HOL-Library.Monad_Syntax"
begin

section \<open>JavaScript values\<close>

text \<open>
  The values that travel through \<^verbatim>\<open>src/index.js\<close>: tool arguments, the parameter objects
  handed to \<^verbatim>\<open>shipiRequest\<close>, request bodies and parsed responses. An object is the list
  of its own properties in insertion order (every property name of the tool schemas is a
  non-numeric string, so insertion order is the enumeration order). Numbers are the
  integers: the handlers only copy numbers, test them for zero and print them, and
  \<^verbatim>\<open>z.number()\<close> rejects NaN. Strings are lists of characters.
\<close>

datatype jsval =
    JUndef
  | JNull
  | JBool bool
  | JNum int
  | JStr string
  | JArr "jsval list"
  | JObj "(string \<times> jsval) list"

type_synonym jsobj = "(string \<times> jsval) list"

text \<open>Truthiness, as \<^verbatim>\<open>if (v)\<close>, \<^verbatim>\<open>!v\<close> and \<^verbatim>\<open>a || b\<close> read it.\<close>

fun truthy :: "jsval \<Rightarrow> bool" where
  "truthy JUndef = False"
| "truthy JNull = False"
| "truthy (JBool b) = b"
| "truthy (JNum n) = (n \<noteq> 0)"
| "truthy (JStr s) = (s \<noteq> [])"
| "truthy (JArr xs) = True"
| "truthy (JObj kvs) = True"

definition js_or :: "jsval \<Rightarrow> jsval \<Rightarrow> jsval" where
  "js_or a b = (if truthy a then a else b)"

text \<open>The test \<^verbatim>\<open>v !== undefined && v !== null && v !== ""\<close> of the GET branch, negated.\<close>

definition is_blank :: "jsval \<Rightarrow> bool" where
  "is_blank v = (v = JUndef \<or> v = JNull \<or> v = JStr [])"

subsection \<open>Objects\<close>

definition has_key :: "jsobj \<Rightarrow> string \<Rightarrow> bool" where
  "has_key kvs k = (map_of kvs k \<noteq> None)"

text \<open>Property read \<^verbatim>\<open>o.k\<close> on an object: a missing property reads as undefined.\<close>

definition obj_get :: "jsobj \<Rightarrow> string \<Rightarrow> jsval" where
  "obj_get kvs k = (case map_of kvs k of Some v \<Rightarrow> v | None \<Rightarrow> JUndef)"

text \<open>Property write \<^verbatim>\<open>o.k = v\<close>: an existing property keeps its place, a new one is appended.\<close>

fun obj_set :: "string \<Rightarrow> jsval \<Rightarrow> jsobj \<Rightarrow> jsobj" where
  "obj_set k v [] = [(k, v)]"
| "obj_set k v ((k', v') # kvs) =
     (if k' = k then (k, v) # kvs else (k', v') # obj_set k v kvs)"

text \<open>Object spread \<^verbatim>\<open>{ ...base, ...ext }\<close>: the properties of \<open>ext\<close> are written onto \<open>base\<close> in order.\<close>

definition obj_spread :: "jsobj \<Rightarrow> jsobj \<Rightarrow> jsobj" where
  "obj_spread base ext = fold (\<lambda>(k, v) acc. obj_set k v acc) ext base"

text \<open>
  Member access \<^verbatim>\<open>v.k\<close> on any value: undefined and null throw a TypeError (\<open>None\<close>);
  strings and arrays have \<^verbatim>\<open>length\<close>; of the names the handlers read, nothing else
  is a property of a primitive.
\<close>

fun member :: "jsval \<Rightarrow> string \<Rightarrow> jsval option" where
  "member JUndef k = None"
| "member JNull k = None"
| "member (JObj kvs) k = Some (obj_get kvs k)"
| "member (JStr s) k = Some (if k = ''length'' then JNum (int (length s)) else JUndef)"
| "member (JArr xs) k = Some (if k = ''length'' then JNum (int (length xs)) else JUndef)"
| "member (JBool b) k = Some JUndef"
| "member (JNum n) k = Some JUndef"

subsection \<open>String(v)\<close>

text \<open>The decimal digit \<open>d\<close>, for \<open>d\<close> below 10.\<close>

definition digit_char :: "nat \<Rightarrow> char" where
  "digit_char d = ''0123456789'' ! d"

function digits :: "nat \<Rightarrow> string" where
  "digits n = (if n < 10 then [digit_char n] else digits (n div 10) @ [digit_char (n mod 10)])"
  by pat_completeness auto
termination
  by (relation "measure id") auto

declare digits.simps [simp del]

definition num_to_string :: "int \<Rightarrow> string" where
  "num_to_string n = (if n < 0 then CHR ''-'' # digits (nat (- n)) else digits (nat n))"

fun join_with :: "string \<Rightarrow> string list \<Rightarrow> string" where
  "join_with sep [] = []"
| "join_with sep [s] = s"
| "join_with sep (s # t # ss) = s @ sep @ join_with sep (t # ss)"

text \<open>
  \<^verbatim>\<open>String(v)\<close>, which \<^verbatim>\<open>URLSearchParams.set\<close> applies to its value: an array joins its
  elements with commas, printing null and undefined elements as nothing.
\<close>

fun to_string :: "jsval \<Rightarrow> string" where
  "to_string JUndef = ''undefined''"
| "to_string JNull = ''null''"
| "to_string (JBool b) = (if b then ''true'' else ''false'')"
| "to_string (JNum n) = num_to_string n"
| "to_string (JStr s) = s"
| "to_string (JArr xs) =
     join_with '','' (map (\<lambda>x. if x = JUndef \<or> x = JNull then [] else to_string x) xs)"
| "to_string (JObj kvs) = ''[object Object]''"

subsection \<open>JSON.stringify\<close>

text \<open>The hexadecimal digit \<open>d\<close>, for \<open>d\<close> below 16.\<close>

definition hex_char :: "nat \<Rightarrow> char" where
  "hex_char d = ''0123456789abcdef'' ! d"

definition quote_char :: "char \<Rightarrow> string" where
  "quote_char c =
     (if c = CHR 0x22 then [CHR 0x5C, CHR 0x22]
      else if c = CHR 0x5C then [CHR 0x5C, CHR 0x5C]
      else if c = CHR 0x08 then [CHR 0x5C, CHR ''b'']
      else if c = CHR 0x0C then [CHR 0x5C, CHR ''f'']
      else if c = CHR 0x0A then [CHR 0x5C, CHR ''n'']
      else if c = CHR 0x0D then [CHR 0x5C, CHR ''r'']
      else if c = CHR 0x09 then [CHR 0x5C, CHR ''t'']
      else if (of_char c :: nat) < 32
        then [CHR 0x5C, CHR ''u'', CHR ''0'', CHR ''0'',
              hex_char (of_char c div 16), hex_char (of_char c mod 16)]
      else [c])"

definition quote_json :: "string \<Rightarrow> string" where
  "quote_json s = CHR 0x22 # concat (map quote_char s) @ [CHR 0x22]"

definition nl :: string where
  "nl = [CHR 0x0A]"

text \<open>
  \<^verbatim>\<open>JSON.stringify(v, null, gap)\<close> at the current indentation. \<open>None\<close> is the result
  undefined: an undefined property is left out of an object and printed as null in an
  array.
\<close>

fun stringify :: "string \<Rightarrow> string \<Rightarrow> jsval \<Rightarrow> string option" where
  "stringify gap ind JUndef = None"
| "stringify gap ind JNull = Some ''null''"
| "stringify gap ind (JBool b) = Some (if b then ''true'' else ''false'')"
| "stringify gap ind (JNum n) = Some (num_to_string n)"
| "stringify gap ind (JStr s) = Some (quote_json s)"
| "stringify gap ind (JArr xs) =
     (let parts = map (\<lambda>x. case stringify gap (ind @ gap) x of None \<Rightarrow> ''null'' | Some s \<Rightarrow> s) xs
      in Some (if parts = [] then ''[]''
               else if gap = [] then ''['' @ join_with '','' parts @ '']''
               else ''['' @ nl @ ind @ gap @ join_with ('','' @ nl @ ind @ gap) parts
                    @ nl @ ind @ '']''))"
| "stringify gap ind (JObj kvs) =
     (let parts = concat (map (\<lambda>(k, v). case stringify gap (ind @ gap) v of
                                  None \<Rightarrow> []
                                | Some s \<Rightarrow> [quote_json k @ '':'' @ (if gap = [] then [] else '' '') @ s]) kvs)
      in Some (if parts = [] then ''{}''
               else if gap = [] then ''{'' @ join_with '','' parts @ ''}''
               else ''{'' @ nl @ ind @ gap @ join_with ('','' @ nl @ ind @ gap) parts
                    @ nl @ ind @ ''}''))"

text \<open>\<^verbatim>\<open>toText(data)\<close> is \<^verbatim>\<open>JSON.stringify(data, null, 2)\<close>: a string, or undefined.\<close>

definition toText :: "jsval \<Rightarrow> jsval" where
  "toText data = (case stringify ''  '' [] data of None \<Rightarrow> JUndef | Some s \<Rightarrow> JStr s)"

section \<open>Parameter schemas\<close>

text \<open>
  The schema combinators the tool declarations use: \<^verbatim>\<open>z.string()\<close>, \<^verbatim>\<open>z.number()\<close>,
  \<^verbatim>\<open>.optional()\<close>, \<^verbatim>\<open>.default(d)\<close>, \<^verbatim>\<open>z.object({...})\<close> and \<^verbatim>\<open>z.array(...)\<close>.
\<close>

datatype zschema =
    ZString
  | ZNumber
  | ZOptional zschema
  | ZDefault zschema jsval
  | ZObject "(string \<times> zschema) list"
  | ZArray zschema

text \<open>
  Modelled from the spec: the parsing of a value against a schema, which the validation
  library performs and which is not part of the sources (the schemas of the tools are,
  and are taken from them below). The validator enforces "types, required/optional,
  defaults": a missing required field fails, "unknown extra fields are ignored", and
  defaults "are applied when a field is omitted". An object schema reads its own keys in
  declaration order, drops every other key of the input, and leaves a key out of its
  result when the parsed value is undefined and the input did not have the key.
  \<open>None\<close> is a validation failure.
\<close>

fun parse :: "zschema \<Rightarrow> jsval \<Rightarrow> jsval option"
  and parse_fields :: "(string \<times> zschema) list \<Rightarrow> jsobj \<Rightarrow> jsobj option" where
  "parse ZString v = (case v of JStr s \<Rightarrow> Some v | _ \<Rightarrow> None)"
| "parse ZNumber v = (case v of JNum n \<Rightarrow> Some v | _ \<Rightarrow> None)"
| "parse (ZOptional s) v = (if v = JUndef then Some JUndef else parse s v)"
| "parse (ZDefault s d) v = parse s (if v = JUndef then d else v)"
| "parse (ZObject shape) v =
     (case v of JObj kvs \<Rightarrow> map_option JObj (parse_fields shape kvs) | _ \<Rightarrow> None)"
| "parse (ZArray s) v =
     (case v of JArr xs \<Rightarrow> map_option JArr (those (map (parse s) xs)) | _ \<Rightarrow> None)"
| "parse_fields [] kvs = Some []"
| "parse_fields ((k, s) # shape) kvs =
     (case parse s (obj_get kvs k) of
        None \<Rightarrow> None
      | Some w \<Rightarrow>
         (case parse_fields shape kvs of
            None \<Rightarrow> None
          | Some ps \<Rightarrow> Some (if w \<noteq> JUndef \<or> has_key kvs k then (k, w) # ps else ps)))"

text \<open>A schema is required when it refuses undefined.\<close>

definition required :: "zschema \<Rightarrow> bool" where
  "required s = (parse s JUndef = None)"

section \<open>The tool catalog\<close>

datatype tool =
    list_shipments | get_shipment | search_shipments | create_shipment | cancel_shipment
  | get_shipping_rates | schedule_pickup | track_shipment | fetch_labels
  | list_addresses | get_address | add_address | edit_address | delete_address
  | list_carriers | get_carrier | get_account_info | get_shipping_stats

abbreviation str_opt :: zschema where
  "str_opt \<equiv> ZOptional ZString"

abbreviation str_dflt :: "string \<Rightarrow> zschema" where
  "str_dflt d \<equiv> ZDefault (ZOptional ZString) (JStr d)"

abbreviation num_dflt :: "int \<Rightarrow> zschema" where
  "num_dflt d \<equiv> ZDefault (ZOptional ZNumber) (JNum d)"

text \<open>The shipper and recipient objects of create_shipment have the same shape.\<close>

definition address_schema :: zschema where
  "address_schema = ZObject
     [(''name'', ZString), (''company'', str_dflt ''''),
      (''address1'', ZString), (''address2'', str_dflt ''''),
      (''city'', ZString), (''state'', ZString), (''postal'', ZString),
      (''country'', ZString), (''phone'', str_dflt ''''), (''email'', str_dflt '''')]"

definition product_schema :: zschema where
  "product_schema = ZObject
     [(''name'', str_dflt ''Package''), (''weight'', ZNumber),
      (''quantity'', num_dflt 1), (''price'', num_dflt 0),
      (''length'', num_dflt 1), (''width'', num_dflt 1), (''height'', num_dflt 1)]"

definition receiver_address_schema :: zschema where
  "receiver_address_schema = ZObject
     [(''name'', str_dflt ''''), (''address1'', ZString), (''address2'', str_dflt ''''),
      (''city'', ZString), (''state'', ZString), (''postal'', ZString),
      (''country'', ZString)]"

fun tool_schema :: "tool \<Rightarrow> (string \<times> zschema) list" where
  "tool_schema list_shipments =
     [(''integration_key'', str_opt), (''page'', num_dflt 1), (''per_page'', num_dflt 20),
      (''status'', str_opt), (''carrier'', str_opt), (''date_from'', str_opt),
      (''date_to'', str_opt)]"
| "tool_schema get_shipment =
     [(''integration_key'', str_opt), (''id'', str_opt), (''order_id'', str_opt)]"
| "tool_schema search_shipments =
     [(''integration_key'', str_opt), (''q'', ZString), (''limit'', num_dflt 20)]"
| "tool_schema create_shipment =
     [(''integration_key'', str_opt), (''carrier_id'', ZNumber),
      (''service_code'', str_dflt ''''), (''shipper'', address_schema),
      (''recipient'', address_schema), (''products'', ZArray product_schema)]"
| "tool_schema cancel_shipment =
     [(''integration_key'', str_opt), (''shipment_id'', ZNumber)]"
| "tool_schema get_shipping_rates =
     [(''integration_key'', str_opt), (''receiver_address'', receiver_address_schema),
      (''products'', ZArray product_schema), (''account_id'', ZOptional ZNumber)]"
| "tool_schema schedule_pickup =
     [(''integration_key'', str_opt), (''order_id'', ZString), (''carrier_type'', ZString),
      (''pickup_date'', str_opt), (''pickup_time'', str_opt)]"
| "tool_schema track_shipment =
     [(''tracking_number'', ZString), (''carrier'', str_dflt '''')]"
| "tool_schema fetch_labels =
     [(''integration_key'', str_opt), (''page'', num_dflt 1), (''limit'', num_dflt 50),
      (''printed'', str_dflt ''all'')]"
| "tool_schema list_addresses =
     [(''integration_key'', str_opt), (''type'', str_opt)]"
| "tool_schema get_address =
     [(''integration_key'', str_opt), (''id'', ZNumber)]"
| "tool_schema add_address =
     [(''integration_key'', str_opt), (''type'', str_dflt ''shipper''), (''name'', ZString),
      (''company'', str_dflt ''''), (''mobile'', str_dflt ''''), (''email'', str_dflt ''''),
      (''address1'', ZString), (''address2'', str_dflt ''''), (''city'', ZString),
      (''state'', str_dflt ''''), (''country'', ZString), (''postal'', ZString),
      (''tax_id'', str_dflt '''')]"
| "tool_schema edit_address =
     [(''integration_key'', str_opt), (''id'', ZNumber), (''type'', str_opt),
      (''name'', str_opt), (''company'', str_opt), (''mobile'', str_opt),
      (''email'', str_opt), (''address1'', str_opt), (''address2'', str_opt),
      (''city'', str_opt), (''state'', str_opt), (''country'', str_opt),
      (''postal'', str_opt)]"
| "tool_schema delete_address =
     [(''integration_key'', str_opt), (''id'', ZNumber)]"
| "tool_schema list_carriers = [(''integration_key'', str_opt)]"
| "tool_schema get_carrier =
     [(''integration_key'', str_opt), (''id'', ZNumber)]"
| "tool_schema get_account_info = [(''integration_key'', str_opt)]"
| "tool_schema get_shipping_stats =
     [(''integration_key'', str_opt), (''period'', str_dflt ''month''),
      (''date_from'', str_opt), (''date_to'', str_opt)]"


section \<open>The HTTP helper\<close>

datatype http_method = GET | POST

text \<open>
  One outbound request as \<^verbatim>\<open>shipiRequest\<close> hands it to \<^verbatim>\<open>fetch\<close>. For GET the query is
  the content of the \<^verbatim>\<open>URLSearchParams\<close> object, sent after \<^verbatim>\<open>?\<close> in the URL; for POST
  the body is the object given to \<^verbatim>\<open>JSON.stringify\<close>.
\<close>

record request =
  req_method :: http_method
  req_url :: string
  req_query :: "(string \<times> string) list"
  req_headers :: "(string \<times> string) list"
  req_body :: "jsobj option"

text \<open>The text of a POST body on the wire.\<close>

definition body_text :: "request \<Rightarrow> string option" where
  "body_text r = (case req_body r of None \<Rightarrow> None | Some b \<Rightarrow> stringify [] [] (JObj b))"

text \<open>
  What the network gives back: \<^verbatim>\<open>fetch\<close> throws (with the message of the error), or
  answers with a status code and a body whose reading with \<^verbatim>\<open>response.text()\<close> throws or
  yields the text.
\<close>

datatype body_result = BodyFails string | BodyText string

datatype fetch_result = FetchFails string | Response nat body_result

text \<open>
  The surroundings of one call: the two environment variables read at start-up, the
  network, and \<^verbatim>\<open>JSON.parse\<close> (\<open>None\<close> when it throws).
\<close>

record runtime =
  SHIPI_BASE_URL :: "string option"
  SHIPI_INTEGRATION_KEY :: "string option"
  fetch :: "request \<Rightarrow> fetch_result"
  json_parse :: "string \<Rightarrow> jsval option"

definition BASE_URL :: "runtime \<Rightarrow> string" where
  "BASE_URL rt =
     (case SHIPI_BASE_URL rt of
        Some s \<Rightarrow> if s \<noteq> [] then s else ''https://app.myshipi.com''
      | None \<Rightarrow> ''https://app.myshipi.com'')"

definition DEFAULT_KEY :: "runtime \<Rightarrow> string" where
  "DEFAULT_KEY rt = (case SHIPI_INTEGRATION_KEY rt of Some s \<Rightarrow> s | None \<Rightarrow> [])"

text \<open>
  \<^verbatim>\<open>URLSearchParams.set\<close>: the first pair of that name takes the value and the others are
  removed; without such a pair, a new one is appended.
\<close>

fun qs_set :: "string \<Rightarrow> string \<Rightarrow> (string \<times> string) list \<Rightarrow> (string \<times> string) list" where
  "qs_set k v [] = [(k, v)]"
| "qs_set k v ((k', v') # qs) =
     (if k' = k then (k, v) # filter (\<lambda>p. fst p \<noteq> k) qs else (k', v') # qs_set k v qs)"

definition error_result :: "string \<Rightarrow> jsval" where
  "error_result msg = JObj [(''status'', JStr ''error''), (''message'', JStr msg)]"

definition build_request :: "runtime \<Rightarrow> string \<Rightarrow> jsobj \<Rightarrow> http_method \<Rightarrow> request" where
  "build_request rt endpoint params method =
     (let url = BASE_URL rt @ ''/'' @ endpoint;
          key = js_or (obj_get params ''integration_key'') (JStr (DEFAULT_KEY rt))
      in if method = GET then
           \<lparr>req_method = GET, req_url = url,
            req_query =
              fold (\<lambda>(k, v) qs. if \<not> is_blank v then qs_set k (to_string v) qs else qs) params
                (if truthy key then qs_set ''integration_key'' (to_string key) [] else []),
            req_headers = [(''Accept'', ''application/json'')],
            req_body = None\<rparr>
         else
           \<lparr>req_method = POST, req_url = url, req_query = [],
            req_headers = [(''Content-Type'', ''application/json''), (''Accept'', ''application/json'')],
            req_body =
              (let body = obj_spread [] params
               in Some (if truthy key \<and> \<not> truthy (obj_get body ''integration_key'')
                        then obj_set ''integration_key'' key body else body))\<rparr>)"

definition read_response :: "runtime \<Rightarrow> fetch_result \<Rightarrow> jsval" where
  "read_response rt res =
     (case res of
        FetchFails msg \<Rightarrow> error_result (''Request failed: '' @ msg)
      | Response status (BodyFails msg) \<Rightarrow> error_result (''Request failed: '' @ msg)
      | Response status (BodyText text) \<Rightarrow>
          (case json_parse rt text of
             Some v \<Rightarrow> v
           | None \<Rightarrow> JObj [(''status'', JStr ''error''),
                           (''message'', JStr ''Invalid JSON response''),
                           (''raw'', JStr (take 500 text))]))"

text \<open>
  \<^verbatim>\<open>shipiRequest(endpoint, params, method)\<close>: the requests it attempted, and the value it
  returns. It never throws: everything from the first \<^verbatim>\<open>fetch\<close> on is inside \<^verbatim>\<open>try\<close>.
\<close>

definition shipiRequest :: "runtime \<Rightarrow> string \<Rightarrow> jsobj \<Rightarrow> http_method \<Rightarrow> request list \<times> jsval" where
  "shipiRequest rt endpoint params method =
     (let req = build_request rt endpoint params method
      in ([req], read_response rt (fetch rt req)))"

section \<open>The tool handlers\<close>

text \<open>\<^verbatim>\<open>products.map(f)\<close>: a TypeError (\<open>None\<close>) when the receiver is not an array or \<open>f\<close> throws.\<close>

definition js_map :: "(jsval \<Rightarrow> jsval option) \<Rightarrow> jsval \<Rightarrow> jsval option" where
  "js_map f v = (case v of JArr xs \<Rightarrow> map_option JArr (those (map f xs)) | _ \<Rightarrow> None)"

text \<open>The arrow function both create_shipment and get_shipping_rates map over the products.\<close>

definition product_entry :: "jsval \<Rightarrow> jsval option" where
  "product_entry p = do {
     name \<leftarrow> member p ''name'';
     weight \<leftarrow> member p ''weight'';
     quantity \<leftarrow> member p ''quantity'';
     price \<leftarrow> member p ''price'';
     len \<leftarrow> member p ''length'';
     width \<leftarrow> member p ''width'';
     height \<leftarrow> member p ''height'';
     Some (JObj
       [(''prod_name'', js_or name (JStr ''Package'')),
        (''prod_weight'', weight),
        (''prod_quantity'', js_or quantity (JNum 1)),
        (''prod_price'', js_or price (JNum 0)),
        (''prod_depth'', js_or len (JNum 1)),
        (''prod_width'', js_or width (JNum 1)),
        (''prod_height'', js_or height (JNum 1))])
   }"

text \<open>The \<^verbatim>\<open>meta\<close> object of create_shipment.\<close>

definition create_shipment_meta :: "jsobj \<Rightarrow> jsobj option" where
  "create_shipment_meta params =
     (let carrier_id = obj_get params ''carrier_id'';
          service_code = obj_get params ''service_code'';
          shipper = obj_get params ''shipper'';
          recipient = obj_get params ''recipient'';
          products = obj_get params ''products''
      in do {
        s_name \<leftarrow> member shipper ''name'';
        s_company \<leftarrow> member shipper ''company'';
        s_address1 \<leftarrow> member shipper ''address1'';
        s_address2 \<leftarrow> member shipper ''address2'';
        s_city \<leftarrow> member shipper ''city'';
        s_state \<leftarrow> member shipper ''state'';
        s_postal \<leftarrow> member shipper ''postal'';
        s_country \<leftarrow> member shipper ''country'';
        s_phone \<leftarrow> member shipper ''phone'';
        s_email \<leftarrow> member shipper ''email'';
        t_name \<leftarrow> member recipient ''name'';
        t_company \<leftarrow> member recipient ''company'';
        t_address1 \<leftarrow> member recipient ''address1'';
        t_address2 \<leftarrow> member recipient ''address2'';
        t_city \<leftarrow> member recipient ''city'';
        t_state \<leftarrow> member recipient ''state'';
        t_postal \<leftarrow> member recipient ''postal'';
        t_country \<leftarrow> member recipient ''country'';
        t_phone \<leftarrow> member recipient ''phone'';
        t_email \<leftarrow> member recipient ''email'';
        prods \<leftarrow> js_map product_entry products;
        Some
          [(''label'', JStr ''d''),
           (''s_name'', s_name),
           (''s_company'', js_or s_company (JStr '''')),
           (''s_address1'', s_address1),
           (''s_address2'', js_or s_address2 (JStr '''')),
           (''s_city'', s_city),
           (''s_state'', s_state),
           (''s_postal'', s_postal),
           (''s_country'', s_country),
           (''s_phone'', js_or s_phone (JStr '''')),
           (''s_email'', js_or s_email (JStr '''')),
           (''t_name'', t_name),
           (''t_company'', js_or t_company (JStr '''')),
           (''t_address1'', t_address1),
           (''t_address2'', js_or t_address2 (JStr '''')),
           (''t_city'', t_city),
           (''t_state'', t_state),
           (''t_postal'', t_postal),
           (''t_country'', t_country),
           (''t_phone'', js_or t_phone (JStr '''')),
           (''t_email'', js_or t_email (JStr '''')),
           (''service_code'', js_or service_code (JStr '''')),
           (''carrier_id'', carrier_id),
           (''products'', prods)]
      })"

text \<open>The \<^verbatim>\<open>meta\<close> object of schedule_pickup, filled by two conditional writes.\<close>

definition schedule_pickup_meta :: "jsobj \<Rightarrow> jsobj" where
  "schedule_pickup_meta params =
     (let meta = [];
          meta = (if truthy (obj_get params ''pickup_date'')
                  then obj_set ''pickup_date'' (obj_get params ''pickup_date'') meta else meta);
          meta = (if truthy (obj_get params ''pickup_time'')
                  then obj_set ''pickup_time'' (obj_get params ''pickup_time'') meta else meta)
      in meta)"

text \<open>
  Each handler makes one call \<^verbatim>\<open>shipiRequest(endpoint, params, method)\<close>. \<open>tool_call\<close>
  gives the three arguments of that call from the default key and the validated
  parameters; \<open>None\<close> is a TypeError thrown while building them.
\<close>

fun tool_call :: "string \<Rightarrow> tool \<Rightarrow> jsobj \<Rightarrow> (string \<times> jsobj \<times> http_method) option" where
  "tool_call dk list_shipments params =
     Some (''api/v1/shipments.php'', obj_spread [(''action'', JStr ''list'')] params, GET)"
| "tool_call dk get_shipment params =
     Some (''api/v1/shipments.php'', obj_spread [(''action'', JStr ''get'')] params, GET)"
| "tool_call dk search_shipments params =
     Some (''api/v1/shipments.php'', obj_spread [(''action'', JStr ''search'')] params, GET)"
| "tool_call dk create_shipment params =
     (let key = js_or (obj_get params ''integration_key'') (JStr dk)
      in do {
        meta \<leftarrow> create_shipment_meta params;
        Some (''label_api/create_shipment.php'',
              [(''integrated_key'', key), (''meta'', JObj meta)], POST)
      })"
| "tool_call dk cancel_shipment params =
     (let key = js_or (obj_get params ''integration_key'') (JStr dk)
      in Some (''cancel_api/delete_shipment.php'',
               [(''integrated_key'', key), (''del_ref'', obj_get params ''shipment_id'')], POST))"
| "tool_call dk get_shipping_rates params =
     (let key = js_or (obj_get params ''integration_key'') (JStr dk)
      in do {
        prods \<leftarrow> js_map product_entry (obj_get params ''products'');
        Some (''rates_api/shipi_rates.php'',
              [(''integration_key'', key),
               (''receiver_address'', obj_get params ''receiver_address''),
               (''products'', prods),
               (''account_id'', obj_get params ''account_id'')], POST)
      })"
| "tool_call dk schedule_pickup params =
     (let key = js_or (obj_get params ''integration_key'') (JStr dk);
          meta = schedule_pickup_meta params
      in Some (''pickup_api/create_pickup.php'',
               [(''integrated_key'', key),
                (''order_id'', obj_get params ''order_id''),
                (''carrier_type'', obj_get params ''carrier_type''),
                (''label'', JStr ''d''),
                (''meta'', JObj meta)], POST))"
| "tool_call dk track_shipment params =
     Some (''api/v1/tracking_url.php'',
           [(''tracking_number'', obj_get params ''tracking_number''),
            (''carrier'', js_or (obj_get params ''carrier'') (JStr ''''))], GET)"
| "tool_call dk fetch_labels params =
     (let key = js_or (obj_get params ''integration_key'') (JStr dk)
      in Some (''label_api/fetch_labels.php'',
               [(''integration_key'', key),
                (''page'', obj_get params ''page''),
                (''limit'', obj_get params ''limit''),
                (''printed'', obj_get params ''printed'')], GET))"
| "tool_call dk list_addresses params =
     Some (''api/v1/addresses.php'', obj_spread [(''action'', JStr ''list'')] params, GET)"
| "tool_call dk get_address params =
     Some (''api/v1/addresses.php'',
           [(''action'', JStr ''get''), (''id'', obj_get params ''id''),
            (''integration_key'', obj_get params ''integration_key'')], GET)"
| "tool_call dk add_address params =
     Some (''api/v1/addresses.php'', obj_spread [(''action'', JStr ''add'')] params, POST)"
| "tool_call dk edit_address params =
     Some (''api/v1/addresses.php'', obj_spread [(''action'', JStr ''edit'')] params, POST)"
| "tool_call dk delete_address params =
     Some (''api/v1/addresses.php'',
           [(''action'', JStr ''delete''), (''id'', obj_get params ''id''),
            (''integration_key'', obj_get params ''integration_key'')], POST)"
| "tool_call dk list_carriers params =
     Some (''api/v1/carriers.php'', obj_spread [(''action'', JStr ''list'')] params, GET)"
| "tool_call dk get_carrier params =
     Some (''api/v1/carriers.php'',
           [(''action'', JStr ''get''), (''id'', obj_get params ''id''),
            (''integration_key'', obj_get params ''integration_key'')], GET)"
| "tool_call dk get_account_info params =
     Some (''api/v1/account.php'', obj_spread [] params, GET)"
| "tool_call dk get_shipping_stats params =
     Some (''api/v1/stats.php'', obj_spread [] params, GET)"

text \<open>The value a handler returns: \<^verbatim>\<open>{ content: [{ type: "text", text: toText(data) }] }\<close>.\<close>

definition text_content :: "jsval \<Rightarrow> jsval" where
  "text_content data =
     JObj [(''content'', JArr [JObj [(''type'', JStr ''text''), (''text'', toText data)]])]"

datatype error = ValidationError | TypeError

definition handler :: "runtime \<Rightarrow> tool \<Rightarrow> jsobj \<Rightarrow> request list \<times> (error + jsval)" where
  "handler rt t params =
     (case tool_call (DEFAULT_KEY rt) t params of
        None \<Rightarrow> ([], Inl TypeError)
      | Some (endpoint, ps, method) \<Rightarrow>
          (let (reqs, data) = shipiRequest rt endpoint ps method
           in (reqs, Inr (text_content data))))"

section \<open>Invoking a tool\<close>

text \<open>
  Modelled from the spec: the dispatch of a registered tool, which the protocol library
  behind \<^verbatim>\<open>server.tool(name, description, schema, handler)\<close> performs and which is not
  part of the sources. The Parameter Validator "enforces each descriptor's schema (types,
  required/optional, defaults) before dispatch", an invocation that fails it "fails with
  a ValidationError before any network call", and "unknown extra fields are ignored": the
  arguments are parsed against the object schema of the tool, and the handler runs on the
  parsed object. The result is the list of requests attempted and the error or the value
  returned.
\<close>

definition invoke :: "runtime \<Rightarrow> tool \<Rightarrow> jsval \<Rightarrow> request list \<times> (error + jsval)" where
  "invoke rt t args =
     (case parse (ZObject (tool_schema t)) args of
        Some (JObj params) \<Rightarrow> handler rt t params
      | _ \<Rightarrow> ([], Inl ValidationError))"


section \<open>What a request carries\<close>

text \<open>
  The named fields a request puts on the wire: the pairs of the query string for GET, and
  for POST the top-level properties of the body that \<^verbatim>\<open>JSON.stringify\<close> writes (a
  property whose value is undefined is not written).
\<close>

definition wire_fields :: "request \<Rightarrow> jsobj" where
  "wire_fields r =
     (case req_body r of
        None \<Rightarrow> map (\<lambda>(k, v). (k, JStr v)) (req_query r)
      | Some b \<Rightarrow> filter (\<lambda>(k, v). v \<noteq> JUndef) b)"

text \<open>
  The backend reads the key from \<^verbatim>\<open>integrated_key\<close> on the three endpoints whose handlers
  write that name, and from \<^verbatim>\<open>integration_key\<close> everywhere else.
\<close>

fun key_field :: "tool \<Rightarrow> string" where
  "key_field create_shipment = ''integrated_key''"
| "key_field cancel_shipment = ''integrated_key''"
| "key_field schedule_pickup = ''integrated_key''"
| "key_field t = ''integration_key''"

text \<open>Every key-carrying field of the request holds the value \<open>x\<close>.\<close>

definition carries_only :: "request \<Rightarrow> jsval \<Rightarrow> bool" where
  "carries_only r x =
     list_all (\<lambda>(f, v). f \<in> {''integration_key'', ''integrated_key''} \<longrightarrow> v = x) (wire_fields r)"

text \<open>The tools whose handler passes \<^verbatim>\<open>"GET"\<close> to \<^verbatim>\<open>shipiRequest\<close>.\<close>

definition get_tools :: "tool list" where
  "get_tools =
     [list_shipments, get_shipment, search_shipments, track_shipment, fetch_labels,
      list_addresses, get_address, list_carriers, get_carrier, get_account_info,
      get_shipping_stats]"

text \<open>
  A mocked backend for concrete runs: the default key \<open>dk\<close>, a network that answers every
  request with \<open>res\<close>, and a parser that knows the two JSON texts the examples use.
\<close>

definition mock_parse :: "string \<Rightarrow> jsval option" where
  \<open>mock_parse s =
     (if s = ''{}'' then Some (JObj [])
      else if s = ''{"ok":1}'' then Some (JObj [(''ok'', JNum 1)])
      else None)\<close>

definition mock_runtime :: "string \<Rightarrow> fetch_result \<Rightarrow> runtime" where
  "mock_runtime dk res =
     \<lparr>SHIPI_BASE_URL = None, SHIPI_INTEGRATION_KEY = Some dk,
      fetch = (\<lambda>r. res), json_parse = mock_parse\<rparr>"


text \<open>The same surroundings with every status code \<open>st\<close> of the backend replaced by \<open>f st\<close>.\<close>

definition with_status :: "(nat \<Rightarrow> nat) \<Rightarrow> runtime \<Rightarrow> runtime" where
  "with_status f rt =
     rt\<lparr>fetch := (\<lambda>r. case fetch rt r of
                          FetchFails msg \<Rightarrow> FetchFails msg
                        | Response st b \<Rightarrow> Response (f st) b)\<rparr>"

text \<open>
  Where a request body holds the product list: under \<^verbatim>\<open>meta.products\<close> for create_shipment,
  under \<^verbatim>\<open>products\<close> for get_shipping_rates.
\<close>

definition sent_products :: "tool \<Rightarrow> jsobj \<Rightarrow> jsval option" where
  "sent_products t body =
     (if t = create_shipment then member (obj_get body ''meta'') ''products''
      else Some (obj_get body ''products''))"

text \<open>One step of the loop of the GET branch over the entries of the parameters.\<close>

abbreviation add_param :: "string \<times> jsval \<Rightarrow> (string \<times> string) list \<Rightarrow> (string \<times> string) list" where
  "add_param \<equiv> (\<lambda>(k, v) qs. if \<not> is_blank v then qs_set k (to_string v) qs else qs)"

section \<open>Facts about objects and schemas\<close>

subsection \<open>Reading properties\<close>

lemma obj_get_Nil [simp]: "obj_get [] k = JUndef"
  by (simp add: obj_get_def)

lemma obj_get_Cons [simp]: "obj_get ((k', v) # kvs) k = (if k = k' then v else obj_get kvs k)"
  by (simp add: obj_get_def)

lemma obj_get_absent: "k \<notin> fst ` set kvs \<Longrightarrow> obj_get kvs k = JUndef"
  by (induction kvs) auto


subsection \<open>Parsing against a schema\<close>

lemma parse_fields_keys:
  "parse_fields shape kvs = Some ps \<Longrightarrow> fst ` set ps \<subseteq> fst ` set shape"
proof (induction shape arbitrary: ps)
  case Nil
  then show ?case by simp
next
  case (Cons a shape)
  obtain k s where a: "a = (k, s)" by (cases a)
  from Cons.prems a obtain w ps' where
    w: "parse s (obj_get kvs k) = Some w" and ps': "parse_fields shape kvs = Some ps'"
    and ps: "ps = (if w \<noteq> JUndef \<or> has_key kvs k then (k, w) # ps' else ps')"
    by (auto split: option.splits)
  from Cons.IH [OF ps'] ps a show ?case by auto
qed

lemma parse_fields_distinct:
  "parse_fields shape kvs = Some ps \<Longrightarrow> distinct (map fst shape) \<Longrightarrow> distinct (map fst ps)"
proof (induction shape arbitrary: ps)
  case Nil
  then show ?case by simp
next
  case (Cons a shape)
  obtain k s where a: "a = (k, s)" by (cases a)
  from Cons.prems a obtain w ps' where
    w: "parse s (obj_get kvs k) = Some w" and ps': "parse_fields shape kvs = Some ps'"
    and ps: "ps = (if w \<noteq> JUndef \<or> has_key kvs k then (k, w) # ps' else ps')"
    by (auto split: option.splits)
  from Cons.prems a have d: "distinct (map fst shape)" and k: "k \<notin> fst ` set shape" by auto
  from parse_fields_keys [OF ps'] k have "k \<notin> fst ` set ps'" by auto
  with Cons.IH [OF ps' d] ps show ?case by auto
qed

text \<open>Each declared key of the result is the parse of the same key of the input.\<close>

lemma parse_fields_get:
  "parse_fields shape kvs = Some ps \<Longrightarrow> distinct (map fst shape) \<Longrightarrow> map_of shape k = Some s
   \<Longrightarrow> parse s (obj_get kvs k) = Some (obj_get ps k)"
proof (induction shape arbitrary: ps)
  case Nil
  then show ?case by simp
next
  case (Cons a shape)
  obtain k' s' where a: "a = (k', s')" by (cases a)
  from Cons.prems a obtain w ps' where
    w: "parse s' (obj_get kvs k') = Some w" and ps': "parse_fields shape kvs = Some ps'"
    and ps: "ps = (if w \<noteq> JUndef \<or> has_key kvs k' then (k', w) # ps' else ps')"
    by (auto split: option.splits)
  from Cons.prems a have d: "distinct (map fst shape)" and k': "k' \<notin> fst ` set shape" by auto
  from parse_fields_keys [OF ps'] k' have nk: "k' \<notin> fst ` set ps'" by auto
  show ?case
  proof (cases "k = k'")
    case True
    with Cons.prems a have "s = s'" by simp
    with True w ps nk show ?thesis by (auto simp: obj_get_absent)
  next
    case False
    with Cons.prems a have "map_of shape k = Some s" by simp
    from Cons.IH [OF ps' d this] False ps show ?thesis by auto
  qed
qed

lemma parse_fields_other:
  assumes "parse_fields shape kvs = Some ps" and "k \<notin> fst ` set shape"
  shows "obj_get ps k = JUndef"
proof -
  from parse_fields_keys [OF assms(1)] assms(2) have "k \<notin> fst ` set ps" by auto
  then show ?thesis by (rule obj_get_absent)
qed

lemma parse_ZString_Some: "parse ZString v = Some w \<longleftrightarrow> (\<exists>s. v = JStr s \<and> w = v)"
  by (cases v) auto

lemma parse_ZNumber_Some: "parse ZNumber v = Some w \<longleftrightarrow> (\<exists>n. v = JNum n \<and> w = v)"
  by (cases v) auto

lemma parse_str_opt_Some:
  "parse (ZOptional ZString) v = Some w \<longleftrightarrow> w = v \<and> (v = JUndef \<or> (\<exists>s. v = JStr s))"
  by (cases v) auto


lemma parse_str_dflt_Some:
  "parse (ZDefault (ZOptional ZString) (JStr d)) v = Some w
   \<longleftrightarrow> (v = JUndef \<and> w = JStr d) \<or> (\<exists>s. v = JStr s \<and> w = v)"
  by (cases v) auto


lemma parse_ZObject_Some:
  "parse (ZObject shape) v = Some w
   \<longleftrightarrow> (\<exists>kvs ps. v = JObj kvs \<and> w = JObj ps \<and> parse_fields shape kvs = Some ps)"
  by (cases v) auto

lemma those_map_Some:
  "those (map f xs) = Some ys \<longleftrightarrow> length ys = length xs \<and> (\<forall>i<length xs. f (xs ! i) = Some (ys ! i))"
proof (induction xs arbitrary: ys)
  case Nil
  then show ?case by auto
next
  case (Cons x xs)
  show ?case
  proof (cases "f x")
    case None
    then show ?thesis by (auto simp: All_less_Suc2)  
  next
    case (Some y)
    show ?thesis
    proof (cases ys)
      case Nil
      with Some show ?thesis by (auto split: option.splits)
    next
      case (Cons y' ys')
      with Some Cons.IH [of ys'] show ?thesis
        by (auto simp: All_less_Suc2 split: option.splits)
    qed
  qed
qed

lemma parse_ZArray_Some:
  "parse (ZArray s) v = Some w
   \<longleftrightarrow> (\<exists>xs ys. v = JArr xs \<and> w = JArr ys \<and> length ys = length xs
         \<and> (\<forall>i<length xs. parse s (xs ! i) = Some (ys ! i)))"
  by (cases v) (auto simp: those_map_Some)

lemma tool_schema_distinct: "distinct (map fst (tool_schema t))"
  by (cases t) simp_all

lemma invoke_valid:
  "parse (ZObject (tool_schema t)) args = Some (JObj ps) \<Longrightarrow> invoke rt t args = handler rt t ps"
  by (simp add: invoke_def)


lemma parse_tool_fields:
  "parse (ZObject (tool_schema t)) (JObj kvs) = Some (JObj ps) \<Longrightarrow> map_of (tool_schema t) k = Some s
   \<Longrightarrow> parse s (obj_get kvs k) = Some (obj_get ps k)"
  by (auto intro: parse_fields_get simp: tool_schema_distinct)


text \<open>
  From here on the equations of \<open>parse\<close> for object and array schemas are applied by
  name, through the characterisations above.
\<close>

declare parse.simps(5,6) [simp del]

subsection \<open>Handlers on validated parameters\<close>

lemma those_map_total:
  "(\<forall>x\<in>set xs. \<exists>y. f x = Some y) \<Longrightarrow> those (map f xs) = Some (map (\<lambda>x. the (f x)) xs)"
  by (induction xs) auto

lemma product_entry_JObj:
  "product_entry (JObj p) = Some (JObj
       [(''prod_name'', js_or (obj_get p ''name'') (JStr ''Package'')),
        (''prod_weight'', obj_get p ''weight''),
        (''prod_quantity'', js_or (obj_get p ''quantity'') (JNum 1)),
        (''prod_price'', js_or (obj_get p ''price'') (JNum 0)),
        (''prod_depth'', js_or (obj_get p ''length'') (JNum 1)),
        (''prod_width'', js_or (obj_get p ''width'') (JNum 1)),
        (''prod_height'', js_or (obj_get p ''height'') (JNum 1))])"
  by (simp add: product_entry_def)

lemma js_map_objects:
  "(\<forall>y\<in>set ys. \<exists>q. y = JObj q)
   \<Longrightarrow> js_map product_entry (JArr ys) = Some (JArr (map (\<lambda>y. the (product_entry y)) ys))"
proof -
  assume "\<forall>y\<in>set ys. \<exists>q. y = JObj q"
  then have "\<forall>y\<in>set ys. \<exists>e. product_entry y = Some e"
    by (auto simp: product_entry_JObj)
  then show ?thesis by (simp add: js_map_def those_map_total)
qed

text \<open>A validated product list is an array of objects.\<close>

lemma parsed_products:
  assumes "parse (ZArray product_schema) v = Some w"
  shows "\<exists>ys. w = JArr ys \<and> (\<forall>y\<in>set ys. \<exists>q. y = JObj q)"
proof -
  from assms obtain xs ys where w: "w = JArr ys" and len: "length ys = length xs"
    and el: "\<forall>i<length xs. parse product_schema (xs ! i) = Some (ys ! i)"
    by (auto simp: parse_ZArray_Some)
  have "\<exists>q. y = JObj q" if "y \<in> set ys" for y
  proof -
    from that obtain i where "i < length ys" "y = ys ! i" by (auto simp: in_set_conv_nth)
    with el len have "parse product_schema (xs ! i) = Some y" by simp
    then show ?thesis by (auto simp: product_schema_def parse_ZObject_Some)
  qed
  with w show ?thesis by blast
qed

lemma create_shipment_meta_objects:
  assumes "obj_get ps ''shipper'' = JObj sh" and "obj_get ps ''recipient'' = JObj rc"
    and "obj_get ps ''products'' = JArr ys" and "\<forall>y\<in>set ys. \<exists>q. y = JObj q"
  shows "create_shipment_meta ps = Some
          [(''label'', JStr ''d''),
           (''s_name'', obj_get sh ''name''),
           (''s_company'', js_or (obj_get sh ''company'') (JStr '''')),
           (''s_address1'', obj_get sh ''address1''),
           (''s_address2'', js_or (obj_get sh ''address2'') (JStr '''')),
           (''s_city'', obj_get sh ''city''),
           (''s_state'', obj_get sh ''state''),
           (''s_postal'', obj_get sh ''postal''),
           (''s_country'', obj_get sh ''country''),
           (''s_phone'', js_or (obj_get sh ''phone'') (JStr '''')),
           (''s_email'', js_or (obj_get sh ''email'') (JStr '''')),
           (''t_name'', obj_get rc ''name''),
           (''t_company'', js_or (obj_get rc ''company'') (JStr '''')),
           (''t_address1'', obj_get rc ''address1''),
           (''t_address2'', js_or (obj_get rc ''address2'') (JStr '''')),
           (''t_city'', obj_get rc ''city''),
           (''t_state'', obj_get rc ''state''),
           (''t_postal'', obj_get rc ''postal''),
           (''t_country'', obj_get rc ''country''),
           (''t_phone'', js_or (obj_get rc ''phone'') (JStr '''')),
           (''t_email'', js_or (obj_get rc ''email'') (JStr '''')),
           (''service_code'', js_or (obj_get ps ''service_code'') (JStr '''')),
           (''carrier_id'', obj_get ps ''carrier_id''),
           (''products'', JArr (map (\<lambda>y. the (product_entry y)) ys))]"
  using assms by (simp add: create_shipment_meta_def js_map_objects)

text \<open>On validated parameters no handler throws.\<close>

lemma tool_call_total:
  assumes valid: "parse (ZObject (tool_schema t)) (JObj kvs) = Some (JObj ps)"
  shows "\<exists>endpoint params mth. tool_call dk t ps = Some (endpoint, params, mth)"
proof (cases t)
  case create_shipment
  have "parse address_schema (obj_get kvs ''shipper'') = Some (obj_get ps ''shipper'')"
    by (rule parse_tool_fields [OF valid]) (simp add: create_shipment)
  then obtain sh where sh: "obj_get ps ''shipper'' = JObj sh"
    by (auto simp: address_schema_def parse_ZObject_Some)
  have "parse address_schema (obj_get kvs ''recipient'') = Some (obj_get ps ''recipient'')"
    by (rule parse_tool_fields [OF valid]) (simp add: create_shipment)
  then obtain rc where rc: "obj_get ps ''recipient'' = JObj rc"
    by (auto simp: address_schema_def parse_ZObject_Some)
  have "parse (ZArray product_schema) (obj_get kvs ''products'') = Some (obj_get ps ''products'')"
    by (rule parse_tool_fields [OF valid]) (simp add: create_shipment)
  from parsed_products [OF this] obtain ys where
    ys: "obj_get ps ''products'' = JArr ys" "\<forall>y\<in>set ys. \<exists>q. y = JObj q" by blast
  from create_shipment_meta_objects [OF sh rc ys] create_shipment show ?thesis by simp
next
  case get_shipping_rates
  have "parse (ZArray product_schema) (obj_get kvs ''products'') = Some (obj_get ps ''products'')"
    by (rule parse_tool_fields [OF valid]) (simp add: get_shipping_rates)
  from parsed_products [OF this] obtain ys where
    ys: "obj_get ps ''products'' = JArr ys" "\<forall>y\<in>set ys. \<exists>q. y = JObj q" by blast
  with get_shipping_rates show ?thesis by (simp add: js_map_objects)
qed simp_all

lemma parse_tool_object:
  "parse (ZObject (tool_schema t)) args = Some w
   \<Longrightarrow> \<exists>kvs ps. args = JObj kvs \<and> w = JObj ps"
  by (auto simp: parse_ZObject_Some)

text \<open>A valid invocation makes exactly one request and returns the formatted answer to it.\<close>

lemma invoke_valid_request:
  assumes valid: "parse (ZObject (tool_schema t)) args = Some w"
  shows "\<exists>r. invoke rt t args = ([r], Inr (text_content (read_response rt (fetch rt r))))"
proof -
  from parse_tool_object [OF valid] obtain kvs ps where a: "args = JObj kvs" "w = JObj ps"
    by blast
  from tool_call_total [OF valid [unfolded a]] obtain endpoint params mth where
    "tool_call (DEFAULT_KEY rt) t ps = Some (endpoint, params, mth)" by blast
  with valid a show ?thesis
    by (simp add: invoke_def handler_def shipiRequest_def Let_def)
qed


subsection \<open>Writing properties and spreading objects\<close>

lemma map_of_obj_set: "map_of (obj_set k v kvs) = (map_of kvs)(k \<mapsto> v)"
  by (induction kvs) auto

lemma obj_get_obj_set [simp]:
  "obj_get (obj_set k v kvs) k' = (if k' = k then v else obj_get kvs k')"
  by (simp add: obj_get_def map_of_obj_set)

lemma keys_obj_set: "fst ` set (obj_set k v kvs) = insert k (fst ` set kvs)"
  by (simp add: dom_map_of_conv_image_fst [symmetric] map_of_obj_set)

lemma distinct_obj_set: "distinct (map fst kvs) \<Longrightarrow> distinct (map fst (obj_set k v kvs))"
  by (induction kvs) (auto simp: keys_obj_set)

lemma obj_spread_Nil [simp]: "obj_spread base [] = base"
  by (simp add: obj_spread_def)

lemma obj_spread_Cons [simp]:
  "obj_spread base ((k, v) # ext) = obj_spread (obj_set k v base) ext"
  by (simp add: obj_spread_def)


lemma distinct_obj_spread:
  "distinct (map fst base) \<Longrightarrow> distinct (map fst (obj_spread base ext))"
proof (induction ext arbitrary: base)
  case Nil
  then show ?case by simp
next
  case (Cons a ext)
  obtain k v where a: "a = (k, v)" by (cases a)
  from Cons.prems have "distinct (map fst (obj_set k v base))" by (rule distinct_obj_set)
  from Cons.IH [OF this] a show ?case by simp
qed

lemma obj_get_obj_spread:
  "distinct (map fst ext) \<Longrightarrow>
   obj_get (obj_spread base ext) k = (if k \<in> fst ` set ext then obj_get ext k else obj_get base k)"
proof (induction ext arbitrary: base)
  case Nil
  then show ?case by simp
next
  case (Cons a ext)
  obtain k' v' where a: "a = (k', v')" by (cases a)
  with Cons.prems have d: "distinct (map fst ext)" and nk: "k' \<notin> fst ` set ext" by auto
  from Cons.IH [OF d, of "obj_set k' v' base"] a nk show ?case by auto
qed

lemma js_or_nonzero: "d \<noteq> 0 \<Longrightarrow> js_or x (JNum d) \<noteq> JNum 0"
  by (cases x) (auto simp: js_or_def)


subsection \<open>The product list\<close>

text \<open>A handler whose call is built makes the one request of \<^verbatim>\<open>shipiRequest\<close>.\<close>

lemma handler_request:
  "tool_call (DEFAULT_KEY rt) t ps = Some (endpoint, params, mth)
   \<Longrightarrow> fst (handler rt t ps) = [build_request rt endpoint params mth]"
  by (simp add: handler_def shipiRequest_def Let_def)

text \<open>The validated product list, element by element.\<close>

lemma parsed_product_fields:
  assumes "parse (ZArray product_schema) (JArr xs) = Some w" and "i < length xs"
    and "xs ! i = JObj p"
  shows "\<exists>ys q. w = JArr ys \<and> length ys = length xs \<and> (\<forall>y\<in>set ys. \<exists>q. y = JObj q)
           \<and> ys ! i = JObj q
           \<and> parse (num_dflt 1) (obj_get p ''quantity'') = Some (obj_get q ''quantity'')
           \<and> parse (num_dflt 0) (obj_get p ''price'') = Some (obj_get q ''price'')
           \<and> parse (num_dflt 1) (obj_get p ''length'') = Some (obj_get q ''length'')
           \<and> parse (num_dflt 1) (obj_get p ''width'') = Some (obj_get q ''width'')
           \<and> parse (num_dflt 1) (obj_get p ''height'') = Some (obj_get q ''height'')
           \<and> parse ZNumber (obj_get p ''weight'') = Some (obj_get q ''weight'')
           \<and> parse (str_dflt ''Package'') (obj_get p ''name'') = Some (obj_get q ''name'')"
proof -
  from parsed_products [OF assms(1)] obtain ys where
    w: "w = JArr ys" and objs: "\<forall>y\<in>set ys. \<exists>q. y = JObj q" by blast
  from assms(1) w have len: "length ys = length xs"
    and el: "\<forall>i<length xs. parse product_schema (xs ! i) = Some (ys ! i)"
    by (auto simp: parse_ZArray_Some)
  from el assms(2,3) have "parse product_schema (JObj p) = Some (ys ! i)" by auto
  then obtain q where q: "ys ! i = JObj q"
    and pf: "parse_fields
       [(''name'', str_dflt ''Package''), (''weight'', ZNumber),
        (''quantity'', num_dflt 1), (''price'', num_dflt 0),
        (''length'', num_dflt 1), (''width'', num_dflt 1), (''height'', num_dflt 1)] p = Some q"
    by (auto simp: product_schema_def parse_ZObject_Some)
  note g = parse_fields_get [OF pf]
  have "parse (num_dflt 1) (obj_get p ''quantity'') = Some (obj_get q ''quantity'')"
    by (rule g) simp_all
  moreover have "parse (num_dflt 0) (obj_get p ''price'') = Some (obj_get q ''price'')"
    by (rule g) simp_all
  moreover have "parse (num_dflt 1) (obj_get p ''length'') = Some (obj_get q ''length'')"
    by (rule g) simp_all
  moreover have "parse (num_dflt 1) (obj_get p ''width'') = Some (obj_get q ''width'')"
    by (rule g) simp_all
  moreover have "parse (num_dflt 1) (obj_get p ''height'') = Some (obj_get q ''height'')"
    by (rule g) simp_all
  moreover have "parse ZNumber (obj_get p ''weight'') = Some (obj_get q ''weight'')"
    by (rule g) simp_all
  moreover have "parse (str_dflt ''Package'') (obj_get p ''name'') = Some (obj_get q ''name'')"
    by (rule g) simp_all
  ultimately show ?thesis using w len objs q by blast
qed

text \<open>What create_shipment and get_shipping_rates send as the product list.\<close>

lemma products_request:
  assumes t: "t = create_shipment \<or> t = get_shipping_rates"
    and valid: "parse (ZObject (tool_schema t)) (JObj kvs) = Some (JObj ps)"
  shows "\<exists>r body ys. fst (invoke rt t (JObj kvs)) = [r] \<and> req_method r = POST
           \<and> req_body r = Some body
           \<and> parse (ZArray product_schema) (obj_get kvs ''products'') = Some (JArr ys)
           \<and> sent_products t body = Some (JArr (map (\<lambda>y. the (product_entry y)) ys))"
proof -
  have "parse (ZArray product_schema) (obj_get kvs ''products'') = Some (obj_get ps ''products'')"
    using t by (auto intro: parse_tool_fields [OF valid])
  moreover from parsed_products [OF this] obtain ys where
    ys: "obj_get ps ''products'' = JArr ys" "\<forall>y\<in>set ys. \<exists>q. y = JObj q" by blast
  ultimately have pp: "parse (ZArray product_schema) (obj_get kvs ''products'') = Some (JArr ys)"
    by simp
  have inv: "invoke rt t (JObj kvs) = handler rt t ps" by (rule invoke_valid [OF valid])
  from t show ?thesis
  proof
    assume c: "t = create_shipment"
    have "parse address_schema (obj_get kvs ''shipper'') = Some (obj_get ps ''shipper'')"
      by (rule parse_tool_fields [OF valid]) (simp add: c)
    then obtain sh where sh: "obj_get ps ''shipper'' = JObj sh"
      by (auto simp: address_schema_def parse_ZObject_Some)
    have "parse address_schema (obj_get kvs ''recipient'') = Some (obj_get ps ''recipient'')"
      by (rule parse_tool_fields [OF valid]) (simp add: c)
    then obtain rc where rc: "obj_get ps ''recipient'' = JObj rc"
      by (auto simp: address_schema_def parse_ZObject_Some)
    note m = create_shipment_meta_objects [OF sh rc ys]
    show ?thesis
      unfolding c inv [unfolded c]
      by (simp add: pp [unfolded c] handler_def shipiRequest_def build_request_def m Let_def
          sent_products_def)
  next
    assume c: "t = get_shipping_rates"
    show ?thesis
      unfolding c inv [unfolded c]
      by (simp add: pp [unfolded c] handler_def shipiRequest_def build_request_def Let_def
          sent_products_def ys js_map_objects)
  qed
qed


lemma zero_takes_fallback:
  "parse (num_dflt d) v = Some w \<Longrightarrow> v = JNum 0 \<Longrightarrow> js_or w (JNum d') = JNum d'"
  by (auto simp: js_or_def)

subsection \<open>Addresses and defaults\<close>

lemma empty_default_kept:
  "parse (str_dflt []) v = Some w \<Longrightarrow> js_or w (JStr []) = (if v = JUndef then JStr [] else v)"
  by (cases v) (auto simp: js_or_def)

text \<open>A validated address: required fields as given, optional ones defaulted to the empty string.\<close>

lemma parsed_address:
  assumes "parse address_schema (JObj a) = Some (JObj b)"
  shows "obj_get b ''name'' = obj_get a ''name''"
    and "obj_get b ''address1'' = obj_get a ''address1''"
    and "obj_get b ''city'' = obj_get a ''city''"
    and "obj_get b ''state'' = obj_get a ''state''"
    and "obj_get b ''postal'' = obj_get a ''postal''"
    and "obj_get b ''country'' = obj_get a ''country''"
    and "js_or (obj_get b ''company'') (JStr []) =
           (if obj_get a ''company'' = JUndef then JStr [] else obj_get a ''company'')"
    and "js_or (obj_get b ''address2'') (JStr []) =
           (if obj_get a ''address2'' = JUndef then JStr [] else obj_get a ''address2'')"
    and "js_or (obj_get b ''phone'') (JStr []) =
           (if obj_get a ''phone'' = JUndef then JStr [] else obj_get a ''phone'')"
    and "js_or (obj_get b ''email'') (JStr []) =
           (if obj_get a ''email'' = JUndef then JStr [] else obj_get a ''email'')"
proof -
  from assms have pf: "parse_fields
     [(''name'', ZString), (''company'', str_dflt ''''),
      (''address1'', ZString), (''address2'', str_dflt ''''),
      (''city'', ZString), (''state'', ZString), (''postal'', ZString),
      (''country'', ZString), (''phone'', str_dflt ''''), (''email'', str_dflt '''')] a = Some b"
    by (simp add: address_schema_def parse_ZObject_Some)
  note g = parse_fields_get [OF pf]
  have req: "obj_get b f = obj_get a f"
    if "f \<in> {''name'', ''address1'', ''city'', ''state'', ''postal'', ''country''}" for f
  proof -
    have "parse ZString (obj_get a f) = Some (obj_get b f)"
      by (rule g) (use that in auto)
    then show ?thesis by (auto simp: parse_ZString_Some simp del: parse.simps)
  qed
  have opt: "js_or (obj_get b f) (JStr []) = (if obj_get a f = JUndef then JStr [] else obj_get a f)"
    if "f \<in> {''company'', ''address2'', ''phone'', ''email''}" for f
  proof -
    have "parse (str_dflt []) (obj_get a f) = Some (obj_get b f)"
      by (rule g) (use that in auto)
    then show ?thesis by (rule empty_default_kept)
  qed
  show "obj_get b ''name'' = obj_get a ''name''" by (rule req) simp
  show "obj_get b ''address1'' = obj_get a ''address1''" by (rule req) simp
  show "obj_get b ''city'' = obj_get a ''city''" by (rule req) simp
  show "obj_get b ''state'' = obj_get a ''state''" by (rule req) simp
  show "obj_get b ''postal'' = obj_get a ''postal''" by (rule req) simp
  show "obj_get b ''country'' = obj_get a ''country''" by (rule req) simp
  show "js_or (obj_get b ''company'') (JStr []) =
           (if obj_get a ''company'' = JUndef then JStr [] else obj_get a ''company'')"
    by (rule opt) simp
  show "js_or (obj_get b ''address2'') (JStr []) =
           (if obj_get a ''address2'' = JUndef then JStr [] else obj_get a ''address2'')"
    by (rule opt) simp
  show "js_or (obj_get b ''phone'') (JStr []) =
           (if obj_get a ''phone'' = JUndef then JStr [] else obj_get a ''phone'')"
    by (rule opt) simp
  show "js_or (obj_get b ''email'') (JStr []) =
           (if obj_get a ''email'' = JUndef then JStr [] else obj_get a ''email'')"
    by (rule opt) simp
qed

lemma one_default_kept:
  "parse (num_dflt 1) v = Some w
   \<Longrightarrow> js_or w (JNum 1) = (if v = JUndef \<or> v = JNum 0 then JNum 1 else v)"
  by (cases v) (auto simp: js_or_def)


subsection \<open>The query string\<close>

lemma map_of_filter_other:
  "k' \<noteq> k \<Longrightarrow> map_of (filter (\<lambda>p. fst p \<noteq> k) qs) k' = map_of qs k'"
  by (induction qs) auto

lemma map_of_qs_set: "map_of (qs_set k v qs) = (map_of qs)(k \<mapsto> v)"
proof (induction qs)
  case Nil
  then show ?case by simp
next
  case (Cons a qs)
  obtain k' v' where a: "a = (k', v')" by (cases a)
  show ?case
  proof (cases "k' = k")
    case True
    have "map_of ((k, v) # filter (\<lambda>p. fst p \<noteq> k) qs) x = ((map_of qs)(k \<mapsto> v)) x" for x
      by (simp add: map_of_filter_other)
    with True a show ?thesis by auto
  next
    case False
    with a Cons.IH show ?thesis by auto
  qed
qed

lemma keys_qs_set: "fst ` set (qs_set k v qs) = insert k (fst ` set qs)"
  by (simp add: dom_map_of_conv_image_fst [symmetric] map_of_qs_set)

lemma distinct_qs_set: "distinct (map fst qs) \<Longrightarrow> distinct (map fst (qs_set k v qs))"
proof (induction qs)
  case Nil
  then show ?case by simp
next
  case (Cons a qs)
  obtain k' v' where a: "a = (k', v')" by (cases a)
  show ?case
  proof (cases "k' = k")
    case True
    from Cons.prems a have "k' \<notin> fst ` set qs" "distinct (map fst qs)" by auto
    with True have "filter (\<lambda>p. fst p \<noteq> k) qs = qs" by (auto simp: filter_id_conv)
    with True a Cons.prems show ?thesis by simp
  next
    case False
    with a Cons show ?thesis by (auto simp: keys_qs_set)
  qed
qed

lemma distinct_add_params:
  "distinct (map fst q0) \<Longrightarrow> distinct (map fst (fold add_param params q0))"
proof (induction params arbitrary: q0)
  case Nil
  then show ?case by simp
next
  case (Cons a params)
  obtain k v where a: "a = (k, v)" by (cases a)
  from Cons.prems have "distinct (map fst (add_param (k, v) q0))"
    by (simp add: distinct_qs_set)
  from Cons.IH [OF this] a show ?case by simp
qed

lemma map_of_add_params:
  "distinct (map fst params) \<Longrightarrow>
   map_of (fold add_param params q0) k =
     (if k \<in> fst ` set params \<and> \<not> is_blank (obj_get params k)
      then Some (to_string (obj_get params k)) else map_of q0 k)"
proof (induction params arbitrary: q0)
  case Nil
  then show ?case by simp
next
  case (Cons a params)
  obtain k' v' where a: "a = (k', v')" by (cases a)
  with Cons.prems have d: "distinct (map fst params)" and nk: "k' \<notin> fst ` set params" by auto
  from Cons.IH [OF d, of "add_param (k', v') q0"] a nk show ?case
    by (auto simp: map_of_qs_set)
qed

lemma get_request:
  "build_request rt endpoint params GET =
     \<lparr>req_method = GET, req_url = BASE_URL rt @ ''/'' @ endpoint,
      req_query = fold add_param params
        (if truthy (js_or (obj_get params ''integration_key'') (JStr (DEFAULT_KEY rt)))
         then [(''integration_key'',
                to_string (js_or (obj_get params ''integration_key'') (JStr (DEFAULT_KEY rt))))]
         else []),
      req_headers = [(''Accept'', ''application/json'')], req_body = None\<rparr>"
  by (simp add: build_request_def Let_def)


subsection \<open>The parameters each handler passes on\<close>

lemma obj_get_present: "obj_get kvs k \<noteq> JUndef \<Longrightarrow> k \<in> fst ` set kvs"
  using obj_get_absent by blast

lemma spread_get:
  "distinct (map fst ps) \<Longrightarrow> k \<notin> fst ` set base \<Longrightarrow> obj_get (obj_spread base ps) k = obj_get ps k"
  by (simp add: obj_get_obj_spread obj_get_absent)

lemma parsed_params:
  assumes valid: "parse (ZObject (tool_schema t)) (JObj kvs) = Some (JObj ps)"
  shows "distinct (map fst ps)"
    and "k \<notin> fst ` set (tool_schema t) \<Longrightarrow> obj_get ps k = JUndef"
proof -
  from valid have pf: "parse_fields (tool_schema t) kvs = Some ps"
    by (simp add: parse_ZObject_Some)
  show "distinct (map fst ps)"
    by (rule parse_fields_distinct [OF pf tool_schema_distinct])
  show "k \<notin> fst ` set (tool_schema t) \<Longrightarrow> obj_get ps k = JUndef"
    by (rule parse_fields_other [OF pf])
qed

lemma no_integrated_key_param: "''integrated_key'' \<notin> fst ` set (tool_schema t)"
  by (cases t) simp_all


text \<open>
  The parameter object each handler hands to \<^verbatim>\<open>shipiRequest\<close>: where it puts the key, and
  that the GET handlers pass every other declared parameter on unchanged.
\<close>

lemma tool_params:
  assumes valid: "parse (ZObject (tool_schema t)) (JObj kvs) = Some (JObj ps)"
  shows "\<exists>endpoint params mth. tool_call d t ps = Some (endpoint, params, mth)
        \<and> distinct (map fst params)
        \<and> (mth = GET \<longleftrightarrow> t \<in> set get_tools)
        \<and> obj_get params ''integration_key'' =
            (if t \<in> {create_shipment, cancel_shipment, schedule_pickup, track_shipment} then JUndef
             else if t \<in> {fetch_labels, get_shipping_rates}
               then js_or (obj_get ps ''integration_key'') (JStr d)
             else obj_get ps ''integration_key'')
        \<and> obj_get params ''integrated_key'' =
            (if t \<in> {create_shipment, cancel_shipment, schedule_pickup}
             then js_or (obj_get ps ''integration_key'') (JStr d) else JUndef)
        \<and> (t \<in> set get_tools \<longrightarrow>
             (\<forall>k \<in> fst ` set (tool_schema t). k \<noteq> ''integration_key''
                \<longrightarrow> obj_get params k = obj_get ps k))"
proof -
  note dps = parsed_params(1) [OF valid]
  have nint: "obj_get ps ''integrated_key'' = JUndef"
    by (rule parsed_params(2) [OF valid no_integrated_key_param])
  show ?thesis
  proof (cases t)
    case create_shipment
    from tool_call_total [OF valid, of d] create_shipment obtain meta where
      "create_shipment_meta ps = Some meta" by (auto simp: bind_eq_Some_conv)
    with create_shipment show ?thesis by (simp add: get_tools_def)
  next
    case get_shipping_rates
    from tool_call_total [OF valid, of d] get_shipping_rates obtain prods where
      "js_map product_entry (obj_get ps ''products'') = Some prods"
      by (auto simp: bind_eq_Some_conv)
    with get_shipping_rates show ?thesis by (simp add: get_tools_def)
  next
    case track_shipment
    have "parse (str_dflt []) (obj_get kvs ''carrier'') = Some (obj_get ps ''carrier'')"
      by (rule parse_tool_fields [OF valid]) (simp add: track_shipment)
    then obtain s where "obj_get ps ''carrier'' = JStr s"
      by (auto simp: parse_str_dflt_Some simp del: parse.simps)
    then have "js_or (obj_get ps ''carrier'') (JStr []) = obj_get ps ''carrier''"
      by (simp add: js_or_def)
    with track_shipment show ?thesis by (simp add: get_tools_def)
  qed (simp_all add: get_tools_def spread_get dps nint distinct_obj_spread)
qed


lemma key_schema:
  "t \<noteq> track_shipment \<Longrightarrow> map_of (tool_schema t) ''integration_key'' = Some str_opt"
  by (cases t) simp_all


text \<open>The validated key is the string given, or undefined.\<close>

lemma validated_key:
  assumes valid: "parse (ZObject (tool_schema t)) (JObj kvs) = Some (JObj ps)"
  shows "obj_get ps ''integration_key'' = JUndef \<or> (\<exists>s. obj_get ps ''integration_key'' = JStr s)"
    and "t \<noteq> track_shipment \<Longrightarrow> obj_get ps ''integration_key'' = obj_get kvs ''integration_key''"
    and "t = track_shipment \<Longrightarrow> obj_get ps ''integration_key'' = JUndef"
proof -
  have a: "obj_get ps ''integration_key'' = obj_get kvs ''integration_key''
      \<and> (obj_get ps ''integration_key'' = JUndef \<or> (\<exists>s. obj_get ps ''integration_key'' = JStr s))"
    if "t \<noteq> track_shipment"
  proof -
    have "parse str_opt (obj_get kvs ''integration_key'') = Some (obj_get ps ''integration_key'')"
      by (rule parse_tool_fields [OF valid key_schema [OF that]])
    then show ?thesis by (auto simp: parse_str_opt_Some simp del: parse.simps)
  qed
  have b: "obj_get ps ''integration_key'' = JUndef" if "t = track_shipment"
    by (rule parsed_params(2) [OF valid]) (simp add: that)
  from a b show "obj_get ps ''integration_key'' = JUndef \<or> (\<exists>s. obj_get ps ''integration_key'' = JStr s)"
    by blast
  from a show "t \<noteq> track_shipment \<Longrightarrow> obj_get ps ''integration_key'' = obj_get kvs ''integration_key''"
    by blast
  from b show "t = track_shipment \<Longrightarrow> obj_get ps ''integration_key'' = JUndef" .
qed
subsection \<open>The fields on the wire\<close>

lemma obj_get_query:
  "obj_get (map (\<lambda>(k, v). (k, JStr v)) q) f = (case map_of q f of None \<Rightarrow> JUndef | Some v \<Rightarrow> JStr v)"
  by (induction q) (auto simp: obj_get_def)

lemma map_fst_query: "map fst (map (\<lambda>(k, v). (k, JStr v)) q) = map fst q"
  by (induction q) auto

lemma obj_get_filter_defined:
  "distinct (map fst b) \<Longrightarrow> obj_get (filter (\<lambda>(k, v). v \<noteq> JUndef) b) f = obj_get b f"
proof (induction b)
  case Nil
  then show ?case by simp
next
  case (Cons a b)
  obtain k v where a: "a = (k, v)" by (cases a)
  with Cons.prems have nk: "k \<notin> fst ` set b" and d: "distinct (map fst b)" by auto
  from nk have "k \<notin> fst ` set (filter (\<lambda>(k, v). v \<noteq> JUndef) b)" by auto
  then have "obj_get (filter (\<lambda>(k, v). v \<noteq> JUndef) b) k = JUndef" by (rule obj_get_absent)
  with Cons.IH [OF d] a show ?case by auto
qed

lemma post_request:
  "build_request rt endpoint params POST =
     \<lparr>req_method = POST, req_url = BASE_URL rt @ ''/'' @ endpoint, req_query = [],
      req_headers = [(''Content-Type'', ''application/json''), (''Accept'', ''application/json'')],
      req_body = Some
        (if truthy (js_or (obj_get params ''integration_key'') (JStr (DEFAULT_KEY rt)))
            \<and> \<not> truthy (obj_get (obj_spread [] params) ''integration_key'')
         then obj_set ''integration_key''
                (js_or (obj_get params ''integration_key'') (JStr (DEFAULT_KEY rt)))
                (obj_spread [] params)
         else obj_spread [] params)\<rparr>"
  by (simp add: build_request_def Let_def)

text \<open>
  What a request carries under \<^verbatim>\<open>integration_key\<close> and under any other name, from the
  parameter object handed to \<^verbatim>\<open>shipiRequest\<close>.
\<close>

lemma request_fields:
  assumes dp: "distinct (map fst params)"
    and pk: "obj_get params ''integration_key'' = JUndef
             \<or> (\<exists>s. obj_get params ''integration_key'' = JStr s)"
  shows "distinct (map fst (wire_fields (build_request rt endpoint params mth)))"
    and "truthy (obj_get params ''integration_key'') \<Longrightarrow>
           obj_get (wire_fields (build_request rt endpoint params mth)) ''integration_key''
             = obj_get params ''integration_key''"
    and "\<not> truthy (obj_get params ''integration_key'') \<Longrightarrow> DEFAULT_KEY rt \<noteq> [] \<Longrightarrow>
           obj_get (wire_fields (build_request rt endpoint params mth)) ''integration_key''
             = JStr (DEFAULT_KEY rt)"
    and "\<not> truthy (obj_get params ''integration_key'') \<Longrightarrow> DEFAULT_KEY rt = [] \<Longrightarrow>
           obj_get (wire_fields (build_request rt endpoint params mth)) ''integration_key''
             \<in> {JUndef, JStr []}"
    and "f \<noteq> ''integration_key'' \<Longrightarrow> mth = POST \<Longrightarrow>
           obj_get (wire_fields (build_request rt endpoint params mth)) f = obj_get params f"
    and "f \<noteq> ''integration_key'' \<Longrightarrow> mth = GET \<Longrightarrow>
           obj_get (wire_fields (build_request rt endpoint params mth)) f
             = (if is_blank (obj_get params f) then JUndef
                else JStr (to_string (obj_get params f)))"
proof -
  let ?r = "build_request rt endpoint params mth"
  let ?pk = "obj_get params ''integration_key''"
  let ?d = "DEFAULT_KEY rt"
  let ?key = "js_or ?pk (JStr ?d)"
  let ?q0 = "if truthy ?key then [(''integration_key'', to_string ?key)] else []"
  let ?b = "obj_spread [] params"
  have db: "distinct (map fst ?b)" by (rule distinct_obj_spread) simp
  have gb: "obj_get ?b x = obj_get params x" for x by (rule spread_get [OF dp]) simp
  have blank: "is_blank ?pk \<longleftrightarrow> \<not> truthy ?pk"
    using pk by (auto simp: is_blank_def)
  have present: "?pk \<noteq> JUndef \<Longrightarrow> ''integration_key'' \<in> fst ` set params"
    by (rule obj_get_present)
  have G: "wire_fields (build_request rt endpoint params GET)
      = map (\<lambda>(k, v). (k, JStr v)) (fold add_param params ?q0)"
    by (simp add: get_request wire_fields_def)
  have P: "wire_fields (build_request rt endpoint params POST)
      = filter (\<lambda>(k, v). v \<noteq> JUndef)
        (if truthy ?key \<and> \<not> truthy (obj_get ?b ''integration_key'')
         then obj_set ''integration_key'' ?key ?b else ?b)"
    by (simp add: post_request wire_fields_def)
  have m: "mth = GET \<or> mth = POST" by (cases mth) auto
  note mq = map_of_add_params [OF dp]
  have dbody: "distinct (map fst (if truthy ?key \<and> \<not> truthy (obj_get ?b ''integration_key'')
         then obj_set ''integration_key'' ?key ?b else ?b))"
    using db by (simp add: distinct_obj_set)
  note fb = obj_get_filter_defined [OF db]
    obj_get_filter_defined [OF distinct_obj_set [OF db]]
  show "distinct (map fst (wire_fields ?r))"
  proof (cases mth)
    case GET
    have "distinct (map fst (fold add_param params ?q0))"
      by (rule distinct_add_params) simp
    then show ?thesis by (simp only: GET G map_fst_query)
  next
    case POST
    from dbody show ?thesis
      unfolding POST P by (rule distinct_map_filter)
  qed
  show "obj_get (wire_fields ?r) ''integration_key'' = ?pk" if t: "truthy ?pk"
  proof (cases mth)
    case GET
    from t have "?pk \<noteq> JUndef" by auto
    with t present blank show ?thesis
      using pk by (auto simp: GET G obj_get_query mq)
  next
    case POST
    from t show ?thesis
      by (simp add: POST P fb gb)
  qed
  show "obj_get (wire_fields ?r) ''integration_key'' = JStr ?d" if t: "\<not> truthy ?pk" "?d \<noteq> []"
  proof (cases mth)
    case GET
    from t blank show ?thesis
      by (simp add: GET G obj_get_query mq js_or_def)
  next
    case POST
    from t show ?thesis
      by (simp add: POST P fb gb js_or_def)
  qed
  show "obj_get (wire_fields ?r) ''integration_key'' \<in> {JUndef, JStr []}"
    if t: "\<not> truthy ?pk" "?d = []"
  proof (cases mth)
    case GET
    from t blank show ?thesis
      by (simp add: GET G obj_get_query mq js_or_def)
  next
    case POST
    from t pk show ?thesis
      by (auto simp: POST P fb gb js_or_def)
  qed
  show "obj_get (wire_fields ?r) f = obj_get params f"
    if "f \<noteq> ''integration_key''" "mth = POST"
    using that by (simp add: P fb gb)
  show "obj_get (wire_fields ?r) f
             = (if is_blank (obj_get params f) then JUndef
                else JStr (to_string (obj_get params f)))"
    if f: "f \<noteq> ''integration_key''" "mth = GET"
  proof -
    have "\<not> is_blank (obj_get params f) \<Longrightarrow> f \<in> fst ` set params"
      by (rule obj_get_present) (auto simp: is_blank_def)
    with f show ?thesis by (auto simp: G obj_get_query mq)
  qed
qed

lemma wire_fields_defined: "(f, v) \<in> set (wire_fields r) \<Longrightarrow> v \<noteq> JUndef"
  by (auto simp: wire_fields_def split: option.splits)

lemma carries_onlyI:
  assumes d: "distinct (map fst (wire_fields r))"
    and a: "obj_get (wire_fields r) ''integration_key'' \<in> {JUndef, x}"
    and b: "obj_get (wire_fields r) ''integrated_key'' \<in> {JUndef, x}"
  shows "carries_only r x"
proof -
  have "v = x" if "(f, v) \<in> set (wire_fields r)" "f \<in> {''integration_key'', ''integrated_key''}"
    for f v
  proof -
    from d that(1) have "obj_get (wire_fields r) f = v" by (simp add: obj_get_def)
    moreover from that(1) have "v \<noteq> JUndef" by (rule wire_fields_defined)
    ultimately show ?thesis using a b that(2) by auto
  qed
  then show ?thesis by (auto simp: carries_only_def list_all_iff)
qed


lemma key_field_eq:
  "key_field t = (if t \<in> {create_shipment, cancel_shipment, schedule_pickup}
                  then ''integrated_key'' else ''integration_key'')"
  by (cases t) simp_all

lemma post_tools: "t \<in> {create_shipment, cancel_shipment, schedule_pickup} \<Longrightarrow> t \<notin> set get_tools"
  by (auto simp: get_tools_def)
section \<open>cancel_shipment sends del_ref\<close>

text \<open>
  Claim C3. For every cancel_shipment invocation with shipment_id \<open>n\<close> that passes
  validation, exactly one request is sent; it is a POST whose body has the field
  \<^verbatim>\<open>del_ref\<close> with the value \<open>n\<close> and has no field named \<^verbatim>\<open>shipment_id\<close>.
\<close>

theorem cancel_shipment_del_ref:
  assumes valid: "parse (ZObject (tool_schema cancel_shipment)) (JObj kvs) = Some (JObj ps)"
    and sid: "obj_get kvs ''shipment_id'' = JNum n"
  shows "\<exists>r b. fst (invoke rt cancel_shipment (JObj kvs)) = [r] \<and> req_method r = POST
           \<and> req_body r = Some b \<and> obj_get b ''del_ref'' = JNum n
           \<and> \<not> has_key b ''shipment_id''"
proof -
  have "parse ZNumber (obj_get kvs ''shipment_id'') = Some (obj_get ps ''shipment_id'')"
    by (rule parse_tool_fields [OF valid]) simp
  with sid have del: "obj_get ps ''shipment_id'' = JNum n" by simp
  have inv: "invoke rt cancel_shipment (JObj kvs) = handler rt cancel_shipment ps"
    by (rule invoke_valid [OF valid])
  show ?thesis
    unfolding inv
    by (simp add: handler_def shipiRequest_def build_request_def obj_spread_def del Let_def
        has_key_def)
qed

text \<open>The invocation \<^verbatim>\<open>cancel_shipment({shipment_id: 42})\<close> with the default key \<^verbatim>\<open>D\<close>.\<close>

theorem cancel_shipment_del_ref_witness:
  \<open>parse (ZObject (tool_schema cancel_shipment)) (JObj [(''shipment_id'', JNum 42)])
     = Some (JObj [(''shipment_id'', JNum 42)])
   \<and> (\<exists>r b. fst (invoke (mock_runtime ''D'' (Response 200 (BodyText ''{}''))) cancel_shipment
                  (JObj [(''shipment_id'', JNum 42)])) = [r] \<and> req_method r = POST
           \<and> req_body r = Some b \<and> obj_get b ''del_ref'' = JNum 42
           \<and> \<not> has_key b ''shipment_id'')
   \<and> fst (invoke (mock_runtime ''D'' (Response 200 (BodyText ''{}''))) cancel_shipment
         (JObj [(''shipment_id'', JNum 42)])) =
     [\<lparr>req_method = POST,
       req_url = ''https://app.myshipi.com/cancel_api/delete_shipment.php'',
       req_query = [],
       req_headers = [(''Content-Type'', ''application/json''), (''Accept'', ''application/json'')],
       req_body = Some [(''integrated_key'', JStr ''D''), (''del_ref'', JNum 42),
                        (''integration_key'', JStr ''D'')]\<rparr>]
   \<and> map body_text (fst (invoke (mock_runtime ''D'' (Response 200 (BodyText ''{}'')))
         cancel_shipment (JObj [(''shipment_id'', JNum 42)])))
     = [Some ''{"integrated_key":"D","del_ref":42,"integration_key":"D"}'']\<close>
proof -
  have valid: "parse (ZObject (tool_schema cancel_shipment)) (JObj [(''shipment_id'', JNum 42)])
      = Some (JObj [(''shipment_id'', JNum 42)])"
    by (simp add: parse.simps(5,6) has_key_def)
  have req: "fst (invoke (mock_runtime ''D'' (Response 200 (BodyText ''{}''))) cancel_shipment
         (JObj [(''shipment_id'', JNum 42)])) =
     [\<lparr>req_method = POST,
       req_url = ''https://app.myshipi.com/cancel_api/delete_shipment.php'',
       req_query = [],
       req_headers = [(''Content-Type'', ''application/json''), (''Accept'', ''application/json'')],
       req_body = Some [(''integrated_key'', JStr ''D''), (''del_ref'', JNum 42),
                        (''integration_key'', JStr ''D'')]\<rparr>]"
    by (simp add: invoke_def parse.simps(5,6) handler_def shipiRequest_def build_request_def
        obj_spread_def Let_def has_key_def mock_runtime_def BASE_URL_def DEFAULT_KEY_def js_or_def)
  have wire: \<open>body_text
     \<lparr>req_method = POST,
       req_url = ''https://app.myshipi.com/cancel_api/delete_shipment.php'',
       req_query = [],
       req_headers = [(''Content-Type'', ''application/json''), (''Accept'', ''application/json'')],
       req_body = Some [(''integrated_key'', JStr ''D''), (''del_ref'', JNum 42),
                        (''integration_key'', JStr ''D'')]\<rparr>
     = Some ''{"integrated_key":"D","del_ref":42,"integration_key":"D"}''\<close>
    by (simp add: body_text_def quote_json_def quote_char_def num_to_string_def digits.simps
        digit_char_def)
  from valid req wire
    cancel_shipment_del_ref [OF valid, of 42 "mock_runtime ''D'' (Response 200 (BodyText ''{}''))"]
  show ?thesis by simp
qed

section \<open>A body that is not JSON\<close>

text \<open>
  Claim C5. For every tool and every invocation that passes validation, when the backend
  answers the request with a body that \<^verbatim>\<open>JSON.parse\<close> rejects, the call does not throw:
  it makes its one request and returns, as its text content, the structured error with
  status \<^verbatim>\<open>error\<close>, the message \<^verbatim>\<open>Invalid JSON response\<close> and a \<^verbatim>\<open>raw\<close> field holding
  the first 500 characters of the body (the whole body when it is shorter).
\<close>

theorem non_json_body_structured_error:
  assumes valid: "parse (ZObject (tool_schema t)) args = Some w"
    and resp: "\<And>r. r \<in> set (fst (invoke rt t args)) \<Longrightarrow> fetch rt r = Response st (BodyText body)"
    and bad: "json_parse rt body = None"
  shows "\<exists>r. invoke rt t args =
           ([r], Inr (text_content (JObj [(''status'', JStr ''error''),
                                          (''message'', JStr ''Invalid JSON response''),
                                          (''raw'', JStr (take 500 body))])))"
proof -
  from invoke_valid_request [OF valid, of rt] obtain r where
    r: "invoke rt t args = ([r], Inr (text_content (read_response rt (fetch rt r))))" by blast
  then have "fetch rt r = Response st (BodyText body)" by (simp add: resp)
  with bad have "read_response rt (fetch rt r) =
      JObj [(''status'', JStr ''error''), (''message'', JStr ''Invalid JSON response''),
            (''raw'', JStr (take 500 body))]"
    by (simp add: read_response_def)
  with r show ?thesis by simp
qed

text \<open>
  The mocked backend answers \<^verbatim>\<open><html>error</html>\<close> with status 200 to
  \<^verbatim>\<open>list_carriers({})\<close>.
\<close>

theorem non_json_body_structured_error_witness:
  "invoke (mock_runtime ''D'' (Response 200 (BodyText ''<html>error</html>''))) list_carriers (JObj [])
     = ([\<lparr>req_method = GET, req_url = ''https://app.myshipi.com/api/v1/carriers.php'',
          req_query = [(''integration_key'', ''D''), (''action'', ''list'')],
          req_headers = [(''Accept'', ''application/json'')], req_body = None\<rparr>],
        Inr (text_content (JObj [(''status'', JStr ''error''),
                                 (''message'', JStr ''Invalid JSON response''),
                                 (''raw'', JStr ''<html>error</html>'')])))"
proof -
  let ?rt = "mock_runtime ''D'' (Response 200 (BodyText ''<html>error</html>''))"
  have valid: "parse (ZObject (tool_schema list_carriers)) (JObj []) = Some (JObj [])"
    by (simp add: parse.simps(5,6) has_key_def)
  have resp: "\<And>r. r \<in> set (fst (invoke ?rt list_carriers (JObj [])))
      \<Longrightarrow> fetch ?rt r = Response 200 (BodyText ''<html>error</html>'')"
    by (simp add: mock_runtime_def)
  have bad: "json_parse ?rt ''<html>error</html>'' = None"
    by (simp add: mock_runtime_def mock_parse_def)
  have req: "fst (invoke ?rt list_carriers (JObj [])) =
      [\<lparr>req_method = GET, req_url = ''https://app.myshipi.com/api/v1/carriers.php'',
          req_query = [(''integration_key'', ''D''), (''action'', ''list'')],
          req_headers = [(''Accept'', ''application/json'')], req_body = None\<rparr>]"
    by (simp add: invoke_def parse.simps(5,6) handler_def shipiRequest_def build_request_def
        obj_spread_def Let_def has_key_def mock_runtime_def BASE_URL_def DEFAULT_KEY_def
        js_or_def is_blank_def)
  from non_json_body_structured_error [OF valid resp bad] req show ?thesis by auto
qed


section \<open>A request that fails\<close>

text \<open>
  Claim C6. For every tool and every invocation that passes validation, when the request
  itself fails (\<^verbatim>\<open>fetch\<close> throws, or reading the body of the answer throws) the failure
  is caught: the call makes its one request and returns, as its text content, the
  structured result with status \<^verbatim>\<open>error\<close> and the message \<^verbatim>\<open>Request failed: \<close> followed by
  the message of the error. Nothing is thrown.
\<close>

theorem network_failure_structured_error:
  assumes valid: "parse (ZObject (tool_schema t)) args = Some w"
    and fails: "\<And>r. r \<in> set (fst (invoke rt t args))
      \<Longrightarrow> fetch rt r = FetchFails msg \<or> (\<exists>st. fetch rt r = Response st (BodyFails msg))"
  shows "\<exists>r. invoke rt t args =
           ([r], Inr (text_content (JObj [(''status'', JStr ''error''),
                                          (''message'', JStr (''Request failed: '' @ msg))])))"
proof -
  from invoke_valid_request [OF valid, of rt] obtain r where
    r: "invoke rt t args = ([r], Inr (text_content (read_response rt (fetch rt r))))" by blast
  then have "fetch rt r = FetchFails msg \<or> (\<exists>st. fetch rt r = Response st (BodyFails msg))"
    by (simp add: fails)
  then have "read_response rt (fetch rt r) = error_result (''Request failed: '' @ msg)"
    by (auto simp: read_response_def)
  with r show ?thesis by (simp add: error_result_def)
qed

text \<open>The network refuses the connection for \<^verbatim>\<open>get_account_info({})\<close>.\<close>

theorem network_failure_structured_error_witness:
  "invoke (mock_runtime ''D'' (FetchFails ''connect ECONNREFUSED'')) get_account_info (JObj [])
     = ([\<lparr>req_method = GET, req_url = ''https://app.myshipi.com/api/v1/account.php'',
          req_query = [(''integration_key'', ''D'')],
          req_headers = [(''Accept'', ''application/json'')], req_body = None\<rparr>],
        Inr (text_content (JObj [(''status'', JStr ''error''),
                                 (''message'', JStr ''Request failed: connect ECONNREFUSED'')])))"
proof -
  let ?rt = "mock_runtime ''D'' (FetchFails ''connect ECONNREFUSED'')"
  have valid: "parse (ZObject (tool_schema get_account_info)) (JObj []) = Some (JObj [])"
    by (simp add: parse.simps(5,6) has_key_def)
  have fails: "\<And>r. r \<in> set (fst (invoke ?rt get_account_info (JObj [])))
      \<Longrightarrow> fetch ?rt r = FetchFails ''connect ECONNREFUSED''
          \<or> (\<exists>st. fetch ?rt r = Response st (BodyFails ''connect ECONNREFUSED''))"
    by (simp add: mock_runtime_def)
  have req: "fst (invoke ?rt get_account_info (JObj [])) =
      [\<lparr>req_method = GET, req_url = ''https://app.myshipi.com/api/v1/account.php'',
          req_query = [(''integration_key'', ''D'')],
          req_headers = [(''Accept'', ''application/json'')], req_body = None\<rparr>]"
    by (simp add: invoke_def parse.simps(5,6) handler_def shipiRequest_def build_request_def
        obj_spread_def Let_def has_key_def mock_runtime_def BASE_URL_def DEFAULT_KEY_def
        js_or_def is_blank_def)
  from network_failure_structured_error [OF valid fails] req show ?thesis by auto
qed

section \<open>The status code\<close>

lemma build_request_with_status [simp]:
  "build_request (with_status f rt) endpoint params mth = build_request rt endpoint params mth"
  by (simp add: build_request_def with_status_def BASE_URL_def DEFAULT_KEY_def)

lemma read_response_with_status:
  "read_response (with_status f rt) (fetch (with_status f rt) r) = read_response rt (fetch rt r)"
  by (simp add: read_response_def with_status_def split: fetch_result.splits body_result.splits)

text \<open>
  Claim C10. The HTTP status code of the answer plays no part: an invocation against a
  backend whose status codes are all replaced gives the same requests and the same
  result, for every tool and all arguments. In particular a body that parses as JSON is
  returned as the result of a valid invocation whatever the status, 4xx and 5xx included;
  what the helper tells apart is a failed request and a body that is not JSON.
\<close>

theorem status_code_ignored:
  "invoke (with_status f rt) t args = invoke rt t args
   \<and> (parse (ZObject (tool_schema t)) args \<noteq> None
        \<longrightarrow> (\<forall>r. fetch rt r = Response st (BodyText body))
        \<longrightarrow> json_parse rt body = Some v
        \<longrightarrow> (\<exists>r. invoke rt t args = ([r], Inr (text_content v))))"
proof
  have "DEFAULT_KEY (with_status f rt) = DEFAULT_KEY rt"
    by (simp add: with_status_def DEFAULT_KEY_def)
  then have "handler (with_status f rt) t ps = handler rt t ps" for ps
    by (simp add: handler_def shipiRequest_def read_response_with_status Let_def
        split: option.splits)
  then show "invoke (with_status f rt) t args = invoke rt t args"
    by (simp add: invoke_def split: option.splits jsval.splits)
next
  show "parse (ZObject (tool_schema t)) args \<noteq> None
        \<longrightarrow> (\<forall>r. fetch rt r = Response st (BodyText body))
        \<longrightarrow> json_parse rt body = Some v
        \<longrightarrow> (\<exists>r. invoke rt t args = ([r], Inr (text_content v)))"
  proof (intro impI)
    assume "parse (ZObject (tool_schema t)) args \<noteq> None"
      and resp: "\<forall>r. fetch rt r = Response st (BodyText body)"
      and ok: "json_parse rt body = Some v"
    then obtain w where valid: "parse (ZObject (tool_schema t)) args = Some w" by auto
    from invoke_valid_request [OF valid, of rt] obtain r where
      r: "invoke rt t args = ([r], Inr (text_content (read_response rt (fetch rt r))))" by blast
    from resp ok have "read_response rt (fetch rt r) = v" by (simp add: read_response_def)
    with r show "\<exists>r. invoke rt t args = ([r], Inr (text_content v))" by simp
  qed
qed

text \<open>Status 500 with the body \<^verbatim>\<open>{}\<close>, against status 200 with the same body.\<close>

theorem status_code_ignored_witness:
  "invoke (mock_runtime ''D'' (Response 500 (BodyText ''{}''))) get_account_info (JObj [])
     = invoke (mock_runtime ''D'' (Response 200 (BodyText ''{}''))) get_account_info (JObj [])
   \<and> invoke (mock_runtime ''D'' (Response 500 (BodyText ''{}''))) get_account_info (JObj [])
     = ([\<lparr>req_method = GET, req_url = ''https://app.myshipi.com/api/v1/account.php'',
          req_query = [(''integration_key'', ''D'')],
          req_headers = [(''Accept'', ''application/json'')], req_body = None\<rparr>],
        Inr (text_content (JObj [])))"
proof -
  let ?rt = "mock_runtime ''D'' (Response 500 (BodyText ''{}''))"
  have valid: "parse (ZObject (tool_schema get_account_info)) (JObj []) \<noteq> None"
    by (simp add: parse.simps(5,6) has_key_def)
  have resp: "\<forall>r. fetch ?rt r = Response 500 (BodyText ''{}'')"
    by (simp add: mock_runtime_def)
  have ok: "json_parse ?rt ''{}'' = Some (JObj [])"
    by (simp add: mock_runtime_def mock_parse_def)
  have same: "with_status (\<lambda>st. 200) ?rt = mock_runtime ''D'' (Response 200 (BodyText ''{}''))"
    by (simp add: with_status_def mock_runtime_def)
  have req: "fst (invoke ?rt get_account_info (JObj [])) =
      [\<lparr>req_method = GET, req_url = ''https://app.myshipi.com/api/v1/account.php'',
          req_query = [(''integration_key'', ''D'')],
          req_headers = [(''Accept'', ''application/json'')], req_body = None\<rparr>]"
    by (simp add: invoke_def parse.simps(5,6) handler_def shipiRequest_def build_request_def
        obj_spread_def Let_def has_key_def mock_runtime_def BASE_URL_def DEFAULT_KEY_def
        js_or_def is_blank_def)
  from status_code_ignored [of "\<lambda>st. 200" ?rt get_account_info "JObj []" 500 "''{}''" "JObj []"]
    valid resp ok req same
  show ?thesis by auto
qed

section \<open>The text output\<close>



section \<open>Validation comes first\<close>

lemma parse_fields_fails:
  "(k, s) \<in> set shape \<Longrightarrow> parse s (obj_get kvs k) = None \<Longrightarrow> parse_fields shape kvs = None"
  by (induction shape) (auto split: option.splits)

text \<open>
  Claim C4. For every tool and every parameter its schema requires, an invocation whose
  arguments omit that parameter fails with a validation error and no request is
  attempted.
\<close>

theorem missing_required_parameter:
  assumes decl: "(k, s) \<in> set (tool_schema t)"
    and req: "required s"
    and omitted: "\<not> has_key kvs k"
  shows "invoke rt t (JObj kvs) = ([], Inl ValidationError)"
proof -
  from omitted have "obj_get kvs k = JUndef"
    by (simp add: has_key_def obj_get_def)
  with req have "parse s (obj_get kvs k) = None" by (simp add: required_def)
  with decl have "parse_fields (tool_schema t) kvs = None" by (rule parse_fields_fails)
  then show ?thesis by (simp add: invoke_def parse.simps(5))
qed

text \<open>
  \<^verbatim>\<open>search_shipments\<close> without \<^verbatim>\<open>q\<close> and \<^verbatim>\<open>create_shipment\<close> without
  \<^verbatim>\<open>carrier_id\<close>.
\<close>

theorem missing_required_parameter_witness:
  "(''q'', ZString) \<in> set (tool_schema search_shipments) \<and> required ZString
   \<and> \<not> has_key [(''limit'', JNum 5)] ''q''
   \<and> invoke (mock_runtime ''D'' (Response 200 (BodyText ''{}''))) search_shipments
        (JObj [(''limit'', JNum 5)]) = ([], Inl ValidationError)
   \<and> (''carrier_id'', ZNumber) \<in> set (tool_schema create_shipment) \<and> required ZNumber
   \<and> \<not> has_key [(''products'', JArr [])] ''carrier_id''
   \<and> invoke (mock_runtime ''D'' (Response 200 (BodyText ''{}''))) create_shipment
        (JObj [(''products'', JArr [])]) = ([], Inl ValidationError)"
proof -
  have a: "(''q'', ZString) \<in> set (tool_schema search_shipments)" by simp
  have b: "required ZString" by (simp add: required_def)
  have c: "\<not> has_key [(''limit'', JNum 5)] ''q''" by (simp add: has_key_def)
  have d: "(''carrier_id'', ZNumber) \<in> set (tool_schema create_shipment)" by simp
  have e: "required ZNumber" by (simp add: required_def)
  have f: "\<not> has_key [(''products'', JArr [])] ''carrier_id''" by (simp add: has_key_def)
  from a b c d e f
    missing_required_parameter [OF a b c, of "mock_runtime ''D'' (Response 200 (BodyText ''{}''))"]
    missing_required_parameter [OF d e f, of "mock_runtime ''D'' (Response 200 (BodyText ''{}''))"]
  show ?thesis by simp
qed

section \<open>Zero quantities and dimensions\<close>

text \<open>
  Claim C9. In create_shipment and get_shipping_rates the fallbacks of the product fields
  apply to every falsy number, not only to an omitted field. For every invocation that
  passes validation and every product of the arguments, the request carries one entry for
  it in which a quantity given as 0 is sent as \<^verbatim>\<open>prod_quantity\<close> 1, a length, width or
  height given as 0 is sent as \<^verbatim>\<open>prod_depth\<close>, \<^verbatim>\<open>prod_width\<close> or \<^verbatim>\<open>prod_height\<close> 1, and a
  price given as 0 stays 0; whatever the arguments, the entry never has a zero quantity or
  a zero dimension.
\<close>

theorem falsy_product_defaults:
  assumes t: "t = create_shipment \<or> t = get_shipping_rates"
    and valid: "parse (ZObject (tool_schema t)) (JObj kvs) = Some (JObj ps)"
    and prods: "obj_get kvs ''products'' = JArr xs"
    and i: "i < length xs"
    and p: "xs ! i = JObj p"
  shows "\<exists>r body es e. fst (invoke rt t (JObj kvs)) = [r] \<and> req_body r = Some body
           \<and> sent_products t body = Some (JArr es) \<and> length es = length xs \<and> es ! i = JObj e
           \<and> (obj_get p ''quantity'' = JNum 0 \<longrightarrow> obj_get e ''prod_quantity'' = JNum 1)
           \<and> (obj_get p ''length'' = JNum 0 \<longrightarrow> obj_get e ''prod_depth'' = JNum 1)
           \<and> (obj_get p ''width'' = JNum 0 \<longrightarrow> obj_get e ''prod_width'' = JNum 1)
           \<and> (obj_get p ''height'' = JNum 0 \<longrightarrow> obj_get e ''prod_height'' = JNum 1)
           \<and> (obj_get p ''price'' = JNum 0 \<longrightarrow> obj_get e ''prod_price'' = JNum 0)
           \<and> obj_get e ''prod_quantity'' \<noteq> JNum 0 \<and> obj_get e ''prod_depth'' \<noteq> JNum 0
           \<and> obj_get e ''prod_width'' \<noteq> JNum 0 \<and> obj_get e ''prod_height'' \<noteq> JNum 0"
proof -
  from products_request [OF t valid, of rt] prods obtain r body ys where
    r: "fst (invoke rt t (JObj kvs)) = [r]" "req_body r = Some body"
    and pp: "parse (ZArray product_schema) (JArr xs) = Some (JArr ys)"
    and sp: "sent_products t body = Some (JArr (map (\<lambda>y. the (product_entry y)) ys))"
    by auto
  from parsed_product_fields [OF pp i p] obtain q where
    len: "length ys = length xs" and q: "ys ! i = JObj q"
    and qty: "parse (num_dflt 1) (obj_get p ''quantity'') = Some (obj_get q ''quantity'')"
    and price: "parse (num_dflt 0) (obj_get p ''price'') = Some (obj_get q ''price'')"
    and len3: "parse (num_dflt 1) (obj_get p ''length'') = Some (obj_get q ''length'')"
      "parse (num_dflt 1) (obj_get p ''width'') = Some (obj_get q ''width'')"
      "parse (num_dflt 1) (obj_get p ''height'') = Some (obj_get q ''height'')"
    by auto
  let ?es = "map (\<lambda>y. the (product_entry y)) ys"
  let ?e = "[(''prod_name'', js_or (obj_get q ''name'') (JStr ''Package'')),
        (''prod_weight'', obj_get q ''weight''),
        (''prod_quantity'', js_or (obj_get q ''quantity'') (JNum 1)),
        (''prod_price'', js_or (obj_get q ''price'') (JNum 0)),
        (''prod_depth'', js_or (obj_get q ''length'') (JNum 1)),
        (''prod_width'', js_or (obj_get q ''width'') (JNum 1)),
        (''prod_height'', js_or (obj_get q ''height'') (JNum 1))]"
  from i len q have e: "?es ! i = JObj ?e" by (simp add: product_entry_JObj)
  have "obj_get p ''quantity'' = JNum 0 \<longrightarrow> obj_get ?e ''prod_quantity'' = JNum 1"
    using zero_takes_fallback [OF qty] by simp
  moreover have "obj_get p ''length'' = JNum 0 \<longrightarrow> obj_get ?e ''prod_depth'' = JNum 1"
    using zero_takes_fallback [OF len3(1)] by simp
  moreover have "obj_get p ''width'' = JNum 0 \<longrightarrow> obj_get ?e ''prod_width'' = JNum 1"
    using zero_takes_fallback [OF len3(2)] by simp
  moreover have "obj_get p ''height'' = JNum 0 \<longrightarrow> obj_get ?e ''prod_height'' = JNum 1"
    using zero_takes_fallback [OF len3(3)] by simp
  moreover have "obj_get p ''price'' = JNum 0 \<longrightarrow> obj_get ?e ''prod_price'' = JNum 0"
    using zero_takes_fallback [OF price] by simp
  moreover have "obj_get ?e ''prod_quantity'' \<noteq> JNum 0" "obj_get ?e ''prod_depth'' \<noteq> JNum 0"
    "obj_get ?e ''prod_width'' \<noteq> JNum 0" "obj_get ?e ''prod_height'' \<noteq> JNum 0"
    by (simp_all add: js_or_nonzero)
  moreover have "length ?es = length xs" using len by simp
  ultimately show ?thesis using r sp e by blast
qed

text \<open>
  \<^verbatim>\<open>get_shipping_rates\<close> for one product with weight 2 and with quantity, price, length,
  width and height all given as 0.
\<close>

theorem falsy_product_defaults_witness:
  "fst (invoke (mock_runtime ''D'' (Response 200 (BodyText ''{}''))) get_shipping_rates
     (JObj
       [(''receiver_address'', JObj [(''address1'', JStr ''2 Oak''), (''city'', JStr ''LA''),
           (''state'', JStr ''CA''), (''postal'', JStr ''90001''), (''country'', JStr ''US'')]),
        (''products'', JArr [JObj [(''weight'', JNum 2), (''quantity'', JNum 0),
           (''price'', JNum 0), (''length'', JNum 0), (''width'', JNum 0),
           (''height'', JNum 0)]])]))
   = [\<lparr>req_method = POST,
       req_url = ''https://app.myshipi.com/rates_api/shipi_rates.php'',
       req_query = [],
       req_headers = [(''Content-Type'', ''application/json''), (''Accept'', ''application/json'')],
       req_body = Some
        [(''integration_key'', JStr ''D''),
         (''receiver_address'',
          JObj [(''name'', JStr []), (''address1'', JStr ''2 Oak''), (''address2'', JStr []),
                (''city'', JStr ''LA''), (''state'', JStr ''CA''), (''postal'', JStr ''90001''),
                (''country'', JStr ''US'')]),
         (''products'',
          JArr [JObj [(''prod_name'', JStr ''Package''), (''prod_weight'', JNum 2),
                      (''prod_quantity'', JNum 1), (''prod_price'', JNum 0),
                      (''prod_depth'', JNum 1), (''prod_width'', JNum 1),
                      (''prod_height'', JNum 1)]]),
         (''account_id'', JUndef)]\<rparr>]
   \<and> (\<exists>r body es e.
         fst (invoke (mock_runtime ''D'' (Response 200 (BodyText ''{}''))) get_shipping_rates
           (JObj
             [(''receiver_address'', JObj [(''address1'', JStr ''2 Oak''), (''city'', JStr ''LA''),
                 (''state'', JStr ''CA''), (''postal'', JStr ''90001''), (''country'', JStr ''US'')]),
              (''products'', JArr [JObj [(''weight'', JNum 2), (''quantity'', JNum 0),
                 (''price'', JNum 0), (''length'', JNum 0), (''width'', JNum 0),
                 (''height'', JNum 0)]])])) = [r]
         \<and> req_body r = Some body \<and> sent_products get_shipping_rates body = Some (JArr es)
         \<and> es ! 0 = JObj e \<and> obj_get e ''prod_quantity'' = JNum 1
         \<and> obj_get e ''prod_depth'' = JNum 1 \<and> obj_get e ''prod_width'' = JNum 1
         \<and> obj_get e ''prod_height'' = JNum 1 \<and> obj_get e ''prod_price'' = JNum 0)"
proof -
  let ?p = "[(''weight'', JNum 2), (''quantity'', JNum 0), (''price'', JNum 0),
             (''length'', JNum 0), (''width'', JNum 0), (''height'', JNum 0)]"
  let ?kvs = "[(''receiver_address'', JObj [(''address1'', JStr ''2 Oak''), (''city'', JStr ''LA''),
           (''state'', JStr ''CA''), (''postal'', JStr ''90001''), (''country'', JStr ''US'')]),
        (''products'', JArr [JObj ?p])]"
  let ?ps = "[(''receiver_address'',
      JObj [(''name'', JStr []), (''address1'', JStr ''2 Oak''), (''address2'', JStr []),
            (''city'', JStr ''LA''), (''state'', JStr ''CA''), (''postal'', JStr ''90001''),
            (''country'', JStr ''US'')]),
     (''products'',
      JArr [JObj [(''name'', JStr ''Package''), (''weight'', JNum 2), (''quantity'', JNum 0),
                  (''price'', JNum 0), (''length'', JNum 0), (''width'', JNum 0),
                  (''height'', JNum 0)]])]"
  let ?rt = "mock_runtime ''D'' (Response 200 (BodyText ''{}''))"
  have valid: "parse (ZObject (tool_schema get_shipping_rates)) (JObj ?kvs) = Some (JObj ?ps)"
    by (simp add: parse.simps(5,6) has_key_def receiver_address_schema_def product_schema_def)
  have req: "fst (invoke ?rt get_shipping_rates (JObj ?kvs)) =
     [\<lparr>req_method = POST,
       req_url = ''https://app.myshipi.com/rates_api/shipi_rates.php'',
       req_query = [],
       req_headers = [(''Content-Type'', ''application/json''), (''Accept'', ''application/json'')],
       req_body = Some
        [(''integration_key'', JStr ''D''),
         (''receiver_address'',
          JObj [(''name'', JStr []), (''address1'', JStr ''2 Oak''), (''address2'', JStr []),
                (''city'', JStr ''LA''), (''state'', JStr ''CA''), (''postal'', JStr ''90001''),
                (''country'', JStr ''US'')]),
         (''products'',
          JArr [JObj [(''prod_name'', JStr ''Package''), (''prod_weight'', JNum 2),
                      (''prod_quantity'', JNum 1), (''prod_price'', JNum 0),
                      (''prod_depth'', JNum 1), (''prod_width'', JNum 1),
                      (''prod_height'', JNum 1)]]),
         (''account_id'', JUndef)]\<rparr>]"
    unfolding invoke_valid [OF valid]
    by (simp add: handler_def shipiRequest_def build_request_def Let_def js_map_def
        product_entry_def mock_runtime_def BASE_URL_def DEFAULT_KEY_def js_or_def)
  from falsy_product_defaults [of get_shipping_rates ?kvs ?ps "[JObj ?p]" 0 ?p ?rt, OF _ valid]
  obtain r body es e where
    "fst (invoke ?rt get_shipping_rates (JObj ?kvs)) = [r]" "req_body r = Some body"
    "sent_products get_shipping_rates body = Some (JArr es)" "es ! 0 = JObj e"
    "obj_get e ''prod_quantity'' = JNum 1" "obj_get e ''prod_depth'' = JNum 1"
    "obj_get e ''prod_width'' = JNum 1" "obj_get e ''prod_height'' = JNum 1"
    "obj_get e ''prod_price'' = JNum 0"
    by auto
  with req show ?thesis by blast
qed

section \<open>create_shipment flattens its addresses\<close>

text \<open>
  Claim C2. For every create_shipment invocation that passes validation, the one request
  is a POST whose body has a \<^verbatim>\<open>meta\<close> object in which the shipper and the recipient are
  flattened: neither the body nor \<^verbatim>\<open>meta\<close> has a \<^verbatim>\<open>shipper\<close> or \<^verbatim>\<open>recipient\<close> field,
  each required address field \<open>f\<close> is sent as \<^verbatim>\<open>s_\<close>\<open>f\<close> and \<^verbatim>\<open>t_\<close>\<open>f\<close> with the value given,
  and each optional one with the value given or the empty string. \<^verbatim>\<open>meta.products\<close> has
  one entry per product, in order; the entry has the weight as \<^verbatim>\<open>prod_weight\<close>, the
  length as \<^verbatim>\<open>prod_depth\<close> (1 when the length is omitted or 0), the quantity as
  \<^verbatim>\<open>prod_quantity\<close> (1 when omitted or 0) and no field named \<^verbatim>\<open>length\<close>. In particular,
  for the shipper Jane of 1 Main, NYC and the single product of weight 5, \<^verbatim>\<open>meta\<close> has
  \<^verbatim>\<open>s_name\<close> Jane, \<^verbatim>\<open>s_city\<close> NYC and one product entry with \<^verbatim>\<open>prod_weight\<close> 5 and
  \<^verbatim>\<open>prod_quantity\<close> 1.
\<close>

theorem create_shipment_flattening:
  assumes valid: "parse (ZObject (tool_schema create_shipment)) (JObj kvs) = Some (JObj ps)"
    and shipper: "obj_get kvs ''shipper'' = JObj shipper"
    and recipient: "obj_get kvs ''recipient'' = JObj recipient"
    and products: "obj_get kvs ''products'' = JArr products"
  shows "\<exists>r body meta entries.
           fst (invoke rt create_shipment (JObj kvs)) = [r] \<and> req_method r = POST
         \<and> req_body r = Some body \<and> obj_get body ''meta'' = JObj meta
         \<and> \<not> has_key body ''shipper'' \<and> \<not> has_key body ''recipient''
         \<and> \<not> has_key meta ''shipper'' \<and> \<not> has_key meta ''recipient''
         \<and> (\<forall>f \<in> set [''name'', ''address1'', ''city'', ''state'', ''postal'', ''country''].
               obj_get meta (''s_'' @ f) = obj_get shipper f
             \<and> obj_get meta (''t_'' @ f) = obj_get recipient f)
         \<and> (\<forall>f \<in> set [''company'', ''address2'', ''phone'', ''email''].
               obj_get meta (''s_'' @ f)
                 = (if obj_get shipper f = JUndef then JStr [] else obj_get shipper f)
             \<and> obj_get meta (''t_'' @ f)
                 = (if obj_get recipient f = JUndef then JStr [] else obj_get recipient f))
         \<and> obj_get meta ''products'' = JArr entries \<and> length entries = length products
         \<and> (\<forall>i < length products. \<forall>p. products ! i = JObj p \<longrightarrow>
               (\<exists>e. entries ! i = JObj e
                  \<and> obj_get e ''prod_weight'' = obj_get p ''weight''
                  \<and> obj_get e ''prod_depth''
                      = (if obj_get p ''length'' = JUndef \<or> obj_get p ''length'' = JNum 0
                         then JNum 1 else obj_get p ''length'')
                  \<and> obj_get e ''prod_quantity''
                      = (if obj_get p ''quantity'' = JUndef \<or> obj_get p ''quantity'' = JNum 0
                         then JNum 1 else obj_get p ''quantity'')
                  \<and> \<not> has_key e ''length''))
         \<and> (shipper = [(''name'', JStr ''Jane''), (''address1'', JStr ''1 Main''),
                         (''city'', JStr ''NYC''), (''state'', JStr ''NY''),
                         (''postal'', JStr ''10001''), (''country'', JStr ''US'')]
              \<and> products = [JObj [(''weight'', JNum 5)]]
              \<longrightarrow> obj_get meta ''s_name'' = JStr ''Jane'' \<and> obj_get meta ''s_city'' = JStr ''NYC''
                \<and> (\<exists>e. entries = [JObj e] \<and> obj_get e ''prod_weight'' = JNum 5
                       \<and> obj_get e ''prod_quantity'' = JNum 1))"
proof -
  have "parse address_schema (obj_get kvs ''shipper'') = Some (obj_get ps ''shipper'')"
    by (rule parse_tool_fields [OF valid]) simp
  with shipper obtain sh where sh: "obj_get ps ''shipper'' = JObj sh"
    and psh: "parse address_schema (JObj shipper) = Some (JObj sh)"
    by (auto simp: address_schema_def parse_ZObject_Some)
  have "parse address_schema (obj_get kvs ''recipient'') = Some (obj_get ps ''recipient'')"
    by (rule parse_tool_fields [OF valid]) simp
  with recipient obtain rc where rc: "obj_get ps ''recipient'' = JObj rc"
    and prc: "parse address_schema (JObj recipient) = Some (JObj rc)"
    by (auto simp: address_schema_def parse_ZObject_Some)
  have pp0: "parse (ZArray product_schema) (JArr products) = Some (obj_get ps ''products'')"
    using parse_tool_fields [OF valid, of "''products''" "ZArray product_schema"] products
    by simp
  from parsed_products [OF this] obtain ys where
    ys: "obj_get ps ''products'' = JArr ys" "\<forall>y\<in>set ys. \<exists>q. y = JObj q" by blast
  from pp0 ys have pp: "parse (ZArray product_schema) (JArr products) = Some (JArr ys)" by simp
  then have len: "length ys = length products" by (auto simp: parse_ZArray_Some)
  let ?entries = "map (\<lambda>y. the (product_entry y)) ys"
  let ?meta = "[(''label'', JStr ''d''),
           (''s_name'', obj_get sh ''name''),
           (''s_company'', js_or (obj_get sh ''company'') (JStr '''')),
           (''s_address1'', obj_get sh ''address1''),
           (''s_address2'', js_or (obj_get sh ''address2'') (JStr '''')),
           (''s_city'', obj_get sh ''city''),
           (''s_state'', obj_get sh ''state''),
           (''s_postal'', obj_get sh ''postal''),
           (''s_country'', obj_get sh ''country''),
           (''s_phone'', js_or (obj_get sh ''phone'') (JStr '''')),
           (''s_email'', js_or (obj_get sh ''email'') (JStr '''')),
           (''t_name'', obj_get rc ''name''),
           (''t_company'', js_or (obj_get rc ''company'') (JStr '''')),
           (''t_address1'', obj_get rc ''address1''),
           (''t_address2'', js_or (obj_get rc ''address2'') (JStr '''')),
           (''t_city'', obj_get rc ''city''),
           (''t_state'', obj_get rc ''state''),
           (''t_postal'', obj_get rc ''postal''),
           (''t_country'', obj_get rc ''country''),
           (''t_phone'', js_or (obj_get rc ''phone'') (JStr '''')),
           (''t_email'', js_or (obj_get rc ''email'') (JStr '''')),
           (''service_code'', js_or (obj_get ps ''service_code'') (JStr '''')),
           (''carrier_id'', obj_get ps ''carrier_id''),
           (''products'', JArr ?entries)]"
  have m: "create_shipment_meta ps = Some ?meta"
    by (rule create_shipment_meta_objects [OF sh rc ys])
  have inv: "invoke rt create_shipment (JObj kvs) = handler rt create_shipment ps"
    by (rule invoke_valid [OF valid])
  have sent: "\<exists>r body. fst (invoke rt create_shipment (JObj kvs)) = [r] \<and> req_method r = POST
         \<and> req_body r = Some body \<and> obj_get body ''meta'' = JObj ?meta
         \<and> \<not> has_key body ''shipper'' \<and> \<not> has_key body ''recipient''"
    unfolding inv
    by (simp add: handler_def shipiRequest_def build_request_def m Let_def has_key_def)
  have nested: "\<not> has_key ?meta ''shipper''" "\<not> has_key ?meta ''recipient''"
    by (simp_all add: has_key_def)
  note s = parsed_address [OF psh] and t = parsed_address [OF prc]
  have req: "\<forall>f \<in> set [''name'', ''address1'', ''city'', ''state'', ''postal'', ''country''].
               obj_get ?meta (''s_'' @ f) = obj_get shipper f
             \<and> obj_get ?meta (''t_'' @ f) = obj_get recipient f"
    by (simp add: s t)
  have opt: "\<forall>f \<in> set [''company'', ''address2'', ''phone'', ''email''].
               obj_get ?meta (''s_'' @ f)
                 = (if obj_get shipper f = JUndef then JStr [] else obj_get shipper f)
             \<and> obj_get ?meta (''t_'' @ f)
                 = (if obj_get recipient f = JUndef then JStr [] else obj_get recipient f)"
    by (simp add: s t)
  have prods: "obj_get ?meta ''products'' = JArr ?entries" "length ?entries = length products"
    by (simp_all add: len)
  have each: "\<exists>e. ?entries ! i = JObj e
                  \<and> obj_get e ''prod_weight'' = obj_get p ''weight''
                  \<and> obj_get e ''prod_depth''
                      = (if obj_get p ''length'' = JUndef \<or> obj_get p ''length'' = JNum 0
                         then JNum 1 else obj_get p ''length'')
                  \<and> obj_get e ''prod_quantity''
                      = (if obj_get p ''quantity'' = JUndef \<or> obj_get p ''quantity'' = JNum 0
                         then JNum 1 else obj_get p ''quantity'')
                  \<and> \<not> has_key e ''length''"
    if i: "i < length products" and p: "products ! i = JObj p" for i p
  proof -
    from parsed_product_fields [OF pp i p] obtain q where q: "ys ! i = JObj q"
      and qty: "parse (num_dflt 1) (obj_get p ''quantity'') = Some (obj_get q ''quantity'')"
      and ln: "parse (num_dflt 1) (obj_get p ''length'') = Some (obj_get q ''length'')"
      and wt: "parse ZNumber (obj_get p ''weight'') = Some (obj_get q ''weight'')"
      by auto
    from wt have w: "obj_get q ''weight'' = obj_get p ''weight''"
      by (auto simp: parse_ZNumber_Some simp del: parse.simps)
    from i len q have "?entries ! i = the (product_entry (JObj q))" by simp
    then show ?thesis
      by (simp add: product_entry_JObj w one_default_kept [OF qty] one_default_kept [OF ln]
          has_key_def)
  qed
  have jane: "obj_get ?meta ''s_name'' = JStr ''Jane'' \<and> obj_get ?meta ''s_city'' = JStr ''NYC''
                \<and> (\<exists>e. ?entries = [JObj e] \<and> obj_get e ''prod_weight'' = JNum 5
                       \<and> obj_get e ''prod_quantity'' = JNum 1)"
    if a: "shipper = [(''name'', JStr ''Jane''), (''address1'', JStr ''1 Main''),
                         (''city'', JStr ''NYC''), (''state'', JStr ''NY''),
                         (''postal'', JStr ''10001''), (''country'', JStr ''US'')]"
      and b: "products = [JObj [(''weight'', JNum 5)]]"
  proof -
    from pp b have "ys = [JObj [(''name'', JStr ''Package''), (''weight'', JNum 5),
        (''quantity'', JNum 1), (''price'', JNum 0), (''length'', JNum 1), (''width'', JNum 1),
        (''height'', JNum 1)]]"
      by (simp add: parse.simps(5,6) product_schema_def has_key_def)
    then have "\<exists>e. ?entries = [JObj e] \<and> obj_get e ''prod_weight'' = JNum 5
                       \<and> obj_get e ''prod_quantity'' = JNum 1"
      by (simp add: product_entry_JObj js_or_def)
    with a s(1,3) show ?thesis by simp
  qed
  have each': "\<forall>i < length products. \<forall>p. products ! i = JObj p \<longrightarrow>
               (\<exists>e. ?entries ! i = JObj e
                  \<and> obj_get e ''prod_weight'' = obj_get p ''weight''
                  \<and> obj_get e ''prod_depth''
                      = (if obj_get p ''length'' = JUndef \<or> obj_get p ''length'' = JNum 0
                         then JNum 1 else obj_get p ''length'')
                  \<and> obj_get e ''prod_quantity''
                      = (if obj_get p ''quantity'' = JUndef \<or> obj_get p ''quantity'' = JNum 0
                         then JNum 1 else obj_get p ''quantity'')
                  \<and> \<not> has_key e ''length'')"
    using each by (intro allI impI)
  have jane': "shipper = [(''name'', JStr ''Jane''), (''address1'', JStr ''1 Main''),
                         (''city'', JStr ''NYC''), (''state'', JStr ''NY''),
                         (''postal'', JStr ''10001''), (''country'', JStr ''US'')]
              \<and> products = [JObj [(''weight'', JNum 5)]]
              \<longrightarrow> obj_get ?meta ''s_name'' = JStr ''Jane'' \<and> obj_get ?meta ''s_city'' = JStr ''NYC''
                \<and> (\<exists>e. ?entries = [JObj e] \<and> obj_get e ''prod_weight'' = JNum 5
                       \<and> obj_get e ''prod_quantity'' = JNum 1)"
    using jane by (intro impI) (elim conjE)
  from sent obtain r body where rb:
    "fst (invoke rt create_shipment (JObj kvs)) = [r]" "req_method r = POST"
    "req_body r = Some body" "obj_get body ''meta'' = JObj ?meta"
    "\<not> has_key body ''shipper''" "\<not> has_key body ''recipient''" by blast
  show ?thesis
    apply (rule exI [of _ r], rule exI [of _ body], rule exI [of _ ?meta],
        rule exI [of _ ?entries])
    apply (insert rb nested req opt prods each' jane')
    apply (intro conjI; assumption)
    done
qed

text \<open>
  The invocation of the claim, with carrier 7 and a recipient in Los Angeles, against the
  default key \<^verbatim>\<open>D\<close>.
\<close>

theorem create_shipment_flattening_witness:
  "fst (invoke (mock_runtime ''D'' (Response 200 (BodyText ''{}''))) create_shipment
     (JObj [(''carrier_id'', JNum 7),
            (''shipper'', JObj [(''name'', JStr ''Jane''), (''address1'', JStr ''1 Main''),
               (''city'', JStr ''NYC''), (''state'', JStr ''NY''),
               (''postal'', JStr ''10001''), (''country'', JStr ''US'')]),
            (''recipient'', JObj [(''name'', JStr ''Bob''), (''address1'', JStr ''2 Oak''),
               (''city'', JStr ''LA''), (''state'', JStr ''CA''),
               (''postal'', JStr ''90001''), (''country'', JStr ''US'')]),
            (''products'', JArr [JObj [(''weight'', JNum 5)]])]))
   = [\<lparr>req_method = POST,
       req_url = ''https://app.myshipi.com/label_api/create_shipment.php'',
       req_query = [],
       req_headers = [(''Content-Type'', ''application/json''), (''Accept'', ''application/json'')],
       req_body = Some
         [(''integrated_key'', JStr ''D''),
          (''meta'', JObj
            [(''label'', JStr ''d''), (''s_name'', JStr ''Jane''),
             (''s_company'', JStr []), (''s_address1'', JStr ''1 Main''),
             (''s_address2'', JStr []), (''s_city'', JStr ''NYC''),
             (''s_state'', JStr ''NY''), (''s_postal'', JStr ''10001''),
             (''s_country'', JStr ''US''), (''s_phone'', JStr []),
             (''s_email'', JStr []), (''t_name'', JStr ''Bob''),
             (''t_company'', JStr []), (''t_address1'', JStr ''2 Oak''),
             (''t_address2'', JStr []), (''t_city'', JStr ''LA''),
             (''t_state'', JStr ''CA''), (''t_postal'', JStr ''90001''),
             (''t_country'', JStr ''US''), (''t_phone'', JStr []),
             (''t_email'', JStr []), (''service_code'', JStr []),
             (''carrier_id'', JNum 7),
             (''products'', JArr
               [JObj [(''prod_name'', JStr ''Package''), (''prod_weight'', JNum 5),
                      (''prod_quantity'', JNum 1), (''prod_price'', JNum 0),
                      (''prod_depth'', JNum 1), (''prod_width'', JNum 1),
                      (''prod_height'', JNum 1)]])]),
          (''integration_key'', JStr ''D'')]\<rparr>]
   \<and> (\<exists>r body meta entries e.
         fst (invoke (mock_runtime ''D'' (Response 200 (BodyText ''{}''))) create_shipment
           (JObj [(''carrier_id'', JNum 7),
                  (''shipper'', JObj [(''name'', JStr ''Jane''), (''address1'', JStr ''1 Main''),
                     (''city'', JStr ''NYC''), (''state'', JStr ''NY''),
                     (''postal'', JStr ''10001''), (''country'', JStr ''US'')]),
                  (''recipient'', JObj [(''name'', JStr ''Bob''), (''address1'', JStr ''2 Oak''),
                     (''city'', JStr ''LA''), (''state'', JStr ''CA''),
                     (''postal'', JStr ''90001''), (''country'', JStr ''US'')]),
                  (''products'', JArr [JObj [(''weight'', JNum 5)]])])) = [r]
       \<and> req_body r = Some body \<and> obj_get body ''meta'' = JObj meta
       \<and> obj_get meta ''s_name'' = JStr ''Jane'' \<and> obj_get meta ''s_city'' = JStr ''NYC''
       \<and> obj_get meta ''products'' = JArr entries \<and> entries = [JObj e]
       \<and> obj_get e ''prod_weight'' = JNum 5 \<and> obj_get e ''prod_quantity'' = JNum 1)"
proof -
  let ?shipper = "[(''name'', JStr ''Jane''), (''address1'', JStr ''1 Main''),
               (''city'', JStr ''NYC''), (''state'', JStr ''NY''),
               (''postal'', JStr ''10001''), (''country'', JStr ''US'')]"
  let ?recipient = "[(''name'', JStr ''Bob''), (''address1'', JStr ''2 Oak''),
               (''city'', JStr ''LA''), (''state'', JStr ''CA''),
               (''postal'', JStr ''90001''), (''country'', JStr ''US'')]"
  let ?products = "[JObj [(''weight'', JNum 5)]]"
  let ?kvs = "[(''carrier_id'', JNum 7), (''shipper'', JObj ?shipper),
               (''recipient'', JObj ?recipient), (''products'', JArr ?products)]"
  let ?ps = "[(''carrier_id'', JNum 7), (''service_code'', JStr []),
      (''shipper'', JObj [(''name'', JStr ''Jane''), (''company'', JStr []),
         (''address1'', JStr ''1 Main''), (''address2'', JStr []), (''city'', JStr ''NYC''),
         (''state'', JStr ''NY''), (''postal'', JStr ''10001''), (''country'', JStr ''US''),
         (''phone'', JStr []), (''email'', JStr [])]),
      (''recipient'', JObj [(''name'', JStr ''Bob''), (''company'', JStr []),
         (''address1'', JStr ''2 Oak''), (''address2'', JStr []), (''city'', JStr ''LA''),
         (''state'', JStr ''CA''), (''postal'', JStr ''90001''), (''country'', JStr ''US''),
         (''phone'', JStr []), (''email'', JStr [])]),
      (''products'', JArr [JObj [(''name'', JStr ''Package''), (''weight'', JNum 5),
         (''quantity'', JNum 1), (''price'', JNum 0), (''length'', JNum 1),
         (''width'', JNum 1), (''height'', JNum 1)]])]"
  let ?rt = "mock_runtime ''D'' (Response 200 (BodyText ''{}''))"
  have valid: "parse (ZObject (tool_schema create_shipment)) (JObj ?kvs) = Some (JObj ?ps)"
    by (simp add: parse.simps(5,6) has_key_def address_schema_def product_schema_def)
  have req: "fst (invoke ?rt create_shipment (JObj ?kvs))
   = [\<lparr>req_method = POST,
       req_url = ''https://app.myshipi.com/label_api/create_shipment.php'',
       req_query = [],
       req_headers = [(''Content-Type'', ''application/json''), (''Accept'', ''application/json'')],
       req_body = Some
         [(''integrated_key'', JStr ''D''),
          (''meta'', JObj
            [(''label'', JStr ''d''), (''s_name'', JStr ''Jane''),
             (''s_company'', JStr []), (''s_address1'', JStr ''1 Main''),
             (''s_address2'', JStr []), (''s_city'', JStr ''NYC''),
             (''s_state'', JStr ''NY''), (''s_postal'', JStr ''10001''),
             (''s_country'', JStr ''US''), (''s_phone'', JStr []),
             (''s_email'', JStr []), (''t_name'', JStr ''Bob''),
             (''t_company'', JStr []), (''t_address1'', JStr ''2 Oak''),
             (''t_address2'', JStr []), (''t_city'', JStr ''LA''),
             (''t_state'', JStr ''CA''), (''t_postal'', JStr ''90001''),
             (''t_country'', JStr ''US''), (''t_phone'', JStr []),
             (''t_email'', JStr []), (''service_code'', JStr []),
             (''carrier_id'', JNum 7),
             (''products'', JArr
               [JObj [(''prod_name'', JStr ''Package''), (''prod_weight'', JNum 5),
                      (''prod_quantity'', JNum 1), (''prod_price'', JNum 0),
                      (''prod_depth'', JNum 1), (''prod_width'', JNum 1),
                      (''prod_height'', JNum 1)]])]),
          (''integration_key'', JStr ''D'')]\<rparr>]"
    unfolding invoke_valid [OF valid]
    by (simp add: handler_def shipiRequest_def build_request_def Let_def js_map_def
        create_shipment_meta_def product_entry_def mock_runtime_def BASE_URL_def
        DEFAULT_KEY_def js_or_def)
  from create_shipment_flattening [OF valid, of ?shipper ?recipient ?products ?rt]
  obtain r body meta entries where
    "fst (invoke ?rt create_shipment (JObj ?kvs)) = [r]" "req_body r = Some body"
    "obj_get body ''meta'' = JObj meta" "obj_get meta ''products'' = JArr entries"
    "obj_get meta ''s_name'' = JStr ''Jane'' \<and> obj_get meta ''s_city'' = JStr ''NYC''
       \<and> (\<exists>e. entries = [JObj e] \<and> obj_get e ''prod_weight'' = JNum 5
              \<and> obj_get e ''prod_quantity'' = JNum 1)"
    by auto
  with req show ?thesis by blast
qed

section \<open>Blank parameters of GET tools\<close>




section \<open>Which key a request carries\<close>

text \<open>
  Claim C1, as amended. For every tool and every invocation that passes validation,
  exactly one request is sent, and:
  \<^item> when a non-empty \<^verbatim>\<open>integration_key\<close> is supplied to a tool other than
    \<^verbatim>\<open>track_shipment\<close>, the request carries that key in the key field of the tool
    (\<^verbatim>\<open>integrated_key\<close> for create_shipment, cancel_shipment and schedule_pickup,
    \<^verbatim>\<open>integration_key\<close> for the others), and for the tools whose key field is
    \<^verbatim>\<open>integration_key\<close> it is the only key the request carries;
  \<^item> when the parameter is omitted, and always for \<^verbatim>\<open>track_shipment\<close> (which declares no
    such parameter), the only key the request carries is the default key, and it stands
    in the key field of the tool whenever it is not empty.
  The claim as stated, that for each of the 18 tools the explicit key and not the default
  is the key carried, fails for \<^verbatim>\<open>track_shipment\<close>, for the three tools that write
  \<^verbatim>\<open>integrated_key\<close>, and for an explicit key that is the empty string.
\<close>

theorem key_resolution:
  assumes valid: "parse (ZObject (tool_schema t)) (JObj kvs) = Some (JObj ps)"
  shows "\<exists>r. fst (invoke rt t (JObj kvs)) = [r]
    \<and> (\<forall>k. obj_get kvs ''integration_key'' = JStr k \<and> k \<noteq> [] \<and> t \<noteq> track_shipment \<longrightarrow>
          obj_get (wire_fields r) (key_field t) = JStr k
        \<and> (key_field t = ''integration_key'' \<longrightarrow> carries_only r (JStr k)))
    \<and> (obj_get kvs ''integration_key'' = JUndef \<or> t = track_shipment \<longrightarrow>
          carries_only r (JStr (DEFAULT_KEY rt))
        \<and> (DEFAULT_KEY rt \<noteq> [] \<longrightarrow>
             obj_get (wire_fields r) (key_field t) = JStr (DEFAULT_KEY rt)))"
proof -
  let ?d = "DEFAULT_KEY rt"
  let ?v = "obj_get ps ''integration_key''"
  let ?three = "{create_shipment, cancel_shipment, schedule_pickup}"
  from tool_params [OF valid, of ?d] obtain endpoint params mth where
    call: "tool_call ?d t ps = Some (endpoint, params, mth)"
    and dp: "distinct (map fst params)"
    and meth: "mth = GET \<longleftrightarrow> t \<in> set get_tools"
    and pik: "obj_get params ''integration_key'' =
            (if t \<in> {create_shipment, cancel_shipment, schedule_pickup, track_shipment} then JUndef
             else if t \<in> {fetch_labels, get_shipping_rates} then js_or ?v (JStr ?d)
             else ?v)"
    and pint: "obj_get params ''integrated_key'' =
            (if t \<in> ?three then js_or ?v (JStr ?d) else JUndef)"
    by auto
  let ?r = "build_request rt endpoint params mth"
  let ?W = "obj_get (wire_fields ?r)"
  let ?pk = "obj_get params ''integration_key''"
  have sent: "fst (invoke rt t (JObj kvs)) = [?r]"
    by (simp add: invoke_valid [OF valid] handler_request [OF call])
  note vk = validated_key [OF valid]
  from vk(1) have pk: "?pk = JUndef \<or> (\<exists>s. ?pk = JStr s)"
    by (auto simp: pik js_or_def)
  note rf = request_fields [OF dp pk, where rt = rt and endpoint = endpoint and mth = mth]
  have post: "mth = POST" if "t \<in> ?three"
    using post_tools [OF that] meth by (cases mth) auto
  have wint: "?W ''integrated_key'' = (if t \<in> ?three then js_or ?v (JStr ?d) else JUndef)"
  proof (cases mth)
    case GET
    with meth post have "t \<notin> ?three" by auto
    with rf(6) [where f = "''integrated_key''"] GET pint show ?thesis by (simp add: is_blank_def)
  next
    case POST
    with rf(5) [where f = "''integrated_key''"] pint show ?thesis by simp
  qed
  have explicit: "?W (key_field t) = JStr k
        \<and> (key_field t = ''integration_key'' \<longrightarrow> carries_only ?r (JStr k))"
    if k: "obj_get kvs ''integration_key'' = JStr k" "k \<noteq> []" "t \<noteq> track_shipment" for k
  proof -
    from vk(2) k have v: "?v = JStr k" by simp
    show ?thesis
    proof (cases "t \<in> ?three")
      case True
      with wint v k(2) show ?thesis by (simp add: key_field_eq js_or_def)
    next
      case False
      with k(2,3) v have p: "?pk = JStr k" by (simp add: pik js_or_def)
      with k(2) rf(2) have w: "?W ''integration_key'' = JStr k" by simp
      from False wint have "?W ''integrated_key'' = JUndef" by simp
      with w have "carries_only ?r (JStr k)"
        by (intro carries_onlyI rf(1)) simp_all
      with w False show ?thesis by (simp add: key_field_eq)
    qed
  qed
  have omitted: "carries_only ?r (JStr ?d)
        \<and> (?d \<noteq> [] \<longrightarrow> ?W (key_field t) = JStr ?d)"
    if o: "obj_get kvs ''integration_key'' = JUndef \<or> t = track_shipment"
  proof -
    from o vk(2,3) have v: "?v = JUndef" by (cases "t = track_shipment") auto
    then have p: "?pk = JUndef \<or> ?pk = JStr ?d" by (simp add: pik js_or_def)
    have wik: "?W ''integration_key'' \<in> {JUndef, JStr ?d}"
      and wik': "?d \<noteq> [] \<Longrightarrow> ?W ''integration_key'' = JStr ?d"
    proof -
      consider (a) "truthy ?pk" | (b) "\<not> truthy ?pk" "?d \<noteq> []" | (c) "\<not> truthy ?pk" "?d = []"
        by blast
      then show "?W ''integration_key'' \<in> {JUndef, JStr ?d}"
      proof cases
        case a
        with p rf(2) show ?thesis by auto
      next
        case b
        with rf(3) show ?thesis by simp
      next
        case c
        with rf(4) show ?thesis by simp
      qed
      show "?W ''integration_key'' = JStr ?d" if "?d \<noteq> []"
      proof (cases "truthy ?pk")
        case True
        with p rf(2) show ?thesis by auto
      next
        case False
        with rf(3) that show ?thesis by simp
      qed
    qed
    from wint v have wi: "?W ''integrated_key'' = (if t \<in> ?three then JStr ?d else JUndef)"
      by (simp add: js_or_def)
    have "carries_only ?r (JStr ?d)"
      using wik wi by (intro carries_onlyI rf(1)) auto
    moreover have "?W (key_field t) = JStr ?d" if "?d \<noteq> []"
      using wik' [OF that] wi by (simp add: key_field_eq)
    ultimately show ?thesis by blast
  qed
  from sent explicit omitted show ?thesis by blast
qed

text \<open>
  Against the default key \<^verbatim>\<open>D\<close>: \<^verbatim>\<open>get_address\<close> called with the key \<^verbatim>\<open>K\<close> sends
  \<^verbatim>\<open>K\<close> only, and \<^verbatim>\<open>schedule_pickup\<close> called without a key sends \<^verbatim>\<open>D\<close>.
\<close>

theorem key_resolution_witness:
  "fst (invoke (mock_runtime ''D'' (Response 200 (BodyText ''{}''))) get_address
          (JObj [(''id'', JNum 9), (''integration_key'', JStr ''K'')]))
     = [\<lparr>req_method = GET, req_url = ''https://app.myshipi.com/api/v1/addresses.php'',
         req_query = [(''integration_key'', ''K''), (''action'', ''get''), (''id'', ''9'')],
         req_headers = [(''Accept'', ''application/json'')], req_body = None\<rparr>]
   \<and> (\<exists>r. fst (invoke (mock_runtime ''D'' (Response 200 (BodyText ''{}''))) get_address
                (JObj [(''id'', JNum 9), (''integration_key'', JStr ''K'')])) = [r]
          \<and> obj_get (wire_fields r) ''integration_key'' = JStr ''K''
          \<and> carries_only r (JStr ''K''))
   \<and> fst (invoke (mock_runtime ''D'' (Response 200 (BodyText ''{}''))) schedule_pickup
          (JObj [(''order_id'', JStr ''ORD-1''), (''carrier_type'', JStr ''fedex'')]))
     = [\<lparr>req_method = POST, req_url = ''https://app.myshipi.com/pickup_api/create_pickup.php'',
         req_query = [],
         req_headers = [(''Content-Type'', ''application/json''), (''Accept'', ''application/json'')],
         req_body = Some [(''integrated_key'', JStr ''D''), (''order_id'', JStr ''ORD-1''),
                          (''carrier_type'', JStr ''fedex''), (''label'', JStr ''d''),
                          (''meta'', JObj []), (''integration_key'', JStr ''D'')]\<rparr>]
   \<and> (\<exists>r. fst (invoke (mock_runtime ''D'' (Response 200 (BodyText ''{}''))) schedule_pickup
                (JObj [(''order_id'', JStr ''ORD-1''), (''carrier_type'', JStr ''fedex'')])) = [r]
          \<and> obj_get (wire_fields r) ''integrated_key'' = JStr ''D''
          \<and> carries_only r (JStr ''D''))"
proof -
  let ?rt = "mock_runtime ''D'' (Response 200 (BodyText ''{}''))"
  let ?a = "[(''id'', JNum 9), (''integration_key'', JStr ''K'')]"
  let ?b = "[(''order_id'', JStr ''ORD-1''), (''carrier_type'', JStr ''fedex'')]"
  have d: "DEFAULT_KEY ?rt = ''D''" by (simp add: mock_runtime_def DEFAULT_KEY_def)
  have va: "parse (ZObject (tool_schema get_address)) (JObj ?a)
      = Some (JObj [(''integration_key'', JStr ''K''), (''id'', JNum 9)])"
    by (simp add: parse.simps(5,6) has_key_def)
  have vb: "parse (ZObject (tool_schema schedule_pickup)) (JObj ?b) = Some (JObj ?b)"
    by (simp add: parse.simps(5,6) has_key_def)
  have ra: "fst (invoke ?rt get_address (JObj ?a))
     = [\<lparr>req_method = GET, req_url = ''https://app.myshipi.com/api/v1/addresses.php'',
         req_query = [(''integration_key'', ''K''), (''action'', ''get''), (''id'', ''9'')],
         req_headers = [(''Accept'', ''application/json'')], req_body = None\<rparr>]"
    unfolding invoke_valid [OF va]
    by (simp add: handler_def shipiRequest_def build_request_def Let_def mock_runtime_def
        BASE_URL_def DEFAULT_KEY_def js_or_def is_blank_def num_to_string_def digits.simps
        digit_char_def)
  have rb: "fst (invoke ?rt schedule_pickup (JObj ?b))
     = [\<lparr>req_method = POST, req_url = ''https://app.myshipi.com/pickup_api/create_pickup.php'',
         req_query = [],
         req_headers = [(''Content-Type'', ''application/json''), (''Accept'', ''application/json'')],
         req_body = Some [(''integrated_key'', JStr ''D''), (''order_id'', JStr ''ORD-1''),
                          (''carrier_type'', JStr ''fedex''), (''label'', JStr ''d''),
                          (''meta'', JObj []), (''integration_key'', JStr ''D'')]\<rparr>]"
    unfolding invoke_valid [OF vb]
    by (simp add: handler_def shipiRequest_def build_request_def Let_def mock_runtime_def
        BASE_URL_def DEFAULT_KEY_def js_or_def schedule_pickup_meta_def)
  from key_resolution [OF va, of ?rt] obtain r where
    "fst (invoke ?rt get_address (JObj ?a)) = [r]"
    "obj_get (wire_fields r) ''integration_key'' = JStr ''K''" "carries_only r (JStr ''K'')"
    by auto
  moreover from key_resolution [OF vb, of ?rt] obtain r' where
    "fst (invoke ?rt schedule_pickup (JObj ?b)) = [r']"
    "obj_get (wire_fields r') ''integrated_key'' = JStr ''D''" "carries_only r' (JStr ''D'')"
    by (auto simp: d)
  ultimately show ?thesis using ra rb by blast
qed

text \<open>
  Against the default key \<^verbatim>\<open>D\<close>: \<^verbatim>\<open>track_shipment\<close> called with the key \<^verbatim>\<open>K\<close> sends
  \<^verbatim>\<open>D\<close> and not \<^verbatim>\<open>K\<close>; \<^verbatim>\<open>cancel_shipment\<close> called with the key \<^verbatim>\<open>K\<close> sends \<^verbatim>\<open>K\<close> as
  \<^verbatim>\<open>integrated_key\<close> and \<^verbatim>\<open>D\<close> as \<^verbatim>\<open>integration_key\<close>; \<^verbatim>\<open>list_carriers\<close> called with
  the empty key sends \<^verbatim>\<open>D\<close>.
\<close>

theorem key_resolution_counterexample:
  "fst (invoke (mock_runtime ''D'' (Response 200 (BodyText ''{}''))) track_shipment
          (JObj [(''tracking_number'', JStr ''123''), (''integration_key'', JStr ''K'')]))
     = [\<lparr>req_method = GET, req_url = ''https://app.myshipi.com/api/v1/tracking_url.php'',
         req_query = [(''integration_key'', ''D''), (''tracking_number'', ''123'')],
         req_headers = [(''Accept'', ''application/json'')], req_body = None\<rparr>]
   \<and> \<not> carries_only
         \<lparr>req_method = GET, req_url = ''https://app.myshipi.com/api/v1/tracking_url.php'',
          req_query = [(''integration_key'', ''D''), (''tracking_number'', ''123'')],
          req_headers = [(''Accept'', ''application/json'')], req_body = None\<rparr> (JStr ''K'')
   \<and> fst (invoke (mock_runtime ''D'' (Response 200 (BodyText ''{}''))) cancel_shipment
          (JObj [(''shipment_id'', JNum 42), (''integration_key'', JStr ''K'')]))
     = [\<lparr>req_method = POST,
         req_url = ''https://app.myshipi.com/cancel_api/delete_shipment.php'',
         req_query = [],
         req_headers = [(''Content-Type'', ''application/json''), (''Accept'', ''application/json'')],
         req_body = Some [(''integrated_key'', JStr ''K''), (''del_ref'', JNum 42),
                          (''integration_key'', JStr ''D'')]\<rparr>]
   \<and> \<not> carries_only
         \<lparr>req_method = POST,
          req_url = ''https://app.myshipi.com/cancel_api/delete_shipment.php'',
          req_query = [],
          req_headers = [(''Content-Type'', ''application/json''), (''Accept'', ''application/json'')],
          req_body = Some [(''integrated_key'', JStr ''K''), (''del_ref'', JNum 42),
                           (''integration_key'', JStr ''D'')]\<rparr> (JStr ''K'')
   \<and> fst (invoke (mock_runtime ''D'' (Response 200 (BodyText ''{}''))) list_carriers
          (JObj [(''integration_key'', JStr [])]))
     = [\<lparr>req_method = GET, req_url = ''https://app.myshipi.com/api/v1/carriers.php'',
         req_query = [(''integration_key'', ''D''), (''action'', ''list'')],
         req_headers = [(''Accept'', ''application/json'')], req_body = None\<rparr>]
   \<and> \<not> carries_only
         \<lparr>req_method = GET, req_url = ''https://app.myshipi.com/api/v1/carriers.php'',
          req_query = [(''integration_key'', ''D''), (''action'', ''list'')],
          req_headers = [(''Accept'', ''application/json'')], req_body = None\<rparr> (JStr [])"
  by (simp add: invoke_def parse.simps(5,6) has_key_def handler_def shipiRequest_def
      build_request_def Let_def mock_runtime_def BASE_URL_def DEFAULT_KEY_def js_or_def
      is_blank_def carries_only_def wire_fields_def)
end
